theory Spec2Isabelle
  imports Main "HOL-Library.Word"
begin

unbundle bit_operations_syntax

section \<open>Machine integers and byte buffers\<close>

text \<open>
  Both tools run on the 32-bit little-endian ARM core of the Apalis T30 and read their
  on-disk structures through packed C structs laid over a byte buffer, so a multi-byte
  field is the little-endian value of its bytes. A buffer is a list of bytes; every read
  names its offset and answers \<open>None\<close> outside the buffer, where the C code would read
  memory that does not belong to the object.
\<close>

type_synonym u8 = "8 word"
type_synonym u16 = "16 word"
type_synonym u32 = "32 word"
type_synonym u64 = "64 word"

definition rd8 :: "u8 list \<Rightarrow> nat \<Rightarrow> u8 option" where
  "rd8 buf off = (if off < length buf then Some (buf ! off) else None)"

definition rd16 :: "u8 list \<Rightarrow> nat \<Rightarrow> u16 option" where
  "rd16 buf off =
     (case (rd8 buf off, rd8 buf (off + 1)) of
        (Some b0, Some b1) \<Rightarrow> Some (ucast b0 OR push_bit 8 (ucast b1))
      | _ \<Rightarrow> None)"

text \<open>Reads at offsets the caller has already shown to lie inside the buffer.\<close>

definition le32 :: "u8 list \<Rightarrow> nat \<Rightarrow> u32" where
  "le32 buf off =
     ucast (buf ! off) OR push_bit 8 (ucast (buf ! (off + 1)))
     OR push_bit 16 (ucast (buf ! (off + 2))) OR push_bit 24 (ucast (buf ! (off + 3)))"

section \<open>CRC32 engine (nvtegraparts.c)\<close>

definition crc32_tab :: "u32 list" where
  "crc32_tab = [
   0x00000000, 0x77073096, 0xee0e612c, 0x990951ba, 0x076dc419, 0x706af48f,
   0xe963a535, 0x9e6495a3, 0x0edb8832, 0x79dcb8a4, 0xe0d5e91e, 0x97d2d988,
   0x09b64c2b, 0x7eb17cbd, 0xe7b82d07, 0x90bf1d91, 0x1db71064, 0x6ab020f2,
   0xf3b97148, 0x84be41de, 0x1adad47d, 0x6ddde4eb, 0xf4d4b551, 0x83d385c7,
   0x136c9856, 0x646ba8c0, 0xfd62f97a, 0x8a65c9ec, 0x14015c4f, 0x63066cd9,
   0xfa0f3d63, 0x8d080df5, 0x3b6e20c8, 0x4c69105e, 0xd56041e4, 0xa2677172,
   0x3c03e4d1, 0x4b04d447, 0xd20d85fd, 0xa50ab56b, 0x35b5a8fa, 0x42b2986c,
   0xdbbbc9d6, 0xacbcf940, 0x32d86ce3, 0x45df5c75, 0xdcd60dcf, 0xabd13d59,
   0x26d930ac, 0x51de003a, 0xc8d75180, 0xbfd06116, 0x21b4f4b5, 0x56b3c423,
   0xcfba9599, 0xb8bda50f, 0x2802b89e, 0x5f058808, 0xc60cd9b2, 0xb10be924,
   0x2f6f7c87, 0x58684c11, 0xc1611dab, 0xb6662d3d, 0x76dc4190, 0x01db7106,
   0x98d220bc, 0xefd5102a, 0x71b18589, 0x06b6b51f, 0x9fbfe4a5, 0xe8b8d433,
   0x7807c9a2, 0x0f00f934, 0x9609a88e, 0xe10e9818, 0x7f6a0dbb, 0x086d3d2d,
   0x91646c97, 0xe6635c01, 0x6b6b51f4, 0x1c6c6162, 0x856530d8, 0xf262004e,
   0x6c0695ed, 0x1b01a57b, 0x8208f4c1, 0xf50fc457, 0x65b0d9c6, 0x12b7e950,
   0x8bbeb8ea, 0xfcb9887c, 0x62dd1ddf, 0x15da2d49, 0x8cd37cf3, 0xfbd44c65,
   0x4db26158, 0x3ab551ce, 0xa3bc0074, 0xd4bb30e2, 0x4adfa541, 0x3dd895d7,
   0xa4d1c46d, 0xd3d6f4fb, 0x4369e96a, 0x346ed9fc, 0xad678846, 0xda60b8d0,
   0x44042d73, 0x33031de5, 0xaa0a4c5f, 0xdd0d7cc9, 0x5005713c, 0x270241aa,
   0xbe0b1010, 0xc90c2086, 0x5768b525, 0x206f85b3, 0xb966d409, 0xce61e49f,
   0x5edef90e, 0x29d9c998, 0xb0d09822, 0xc7d7a8b4, 0x59b33d17, 0x2eb40d81,
   0xb7bd5c3b, 0xc0ba6cad, 0xedb88320, 0x9abfb3b6, 0x03b6e20c, 0x74b1d29a,
   0xead54739, 0x9dd277af, 0x04db2615, 0x73dc1683, 0xe3630b12, 0x94643b84,
   0x0d6d6a3e, 0x7a6a5aa8, 0xe40ecf0b, 0x9309ff9d, 0x0a00ae27, 0x7d079eb1,
   0xf00f9344, 0x8708a3d2, 0x1e01f268, 0x6906c2fe, 0xf762575d, 0x806567cb,
   0x196c3671, 0x6e6b06e7, 0xfed41b76, 0x89d32be0, 0x10da7a5a, 0x67dd4acc,
   0xf9b9df6f, 0x8ebeeff9, 0x17b7be43, 0x60b08ed5, 0xd6d6a3e8, 0xa1d1937e,
   0x38d8c2c4, 0x4fdff252, 0xd1bb67f1, 0xa6bc5767, 0x3fb506dd, 0x48b2364b,
   0xd80d2bda, 0xaf0a1b4c, 0x36034af6, 0x41047a60, 0xdf60efc3, 0xa867df55,
   0x316e8eef, 0x4669be79, 0xcb61b38c, 0xbc66831a, 0x256fd2a0, 0x5268e236,
   0xcc0c7795, 0xbb0b4703, 0x220216b9, 0x5505262f, 0xc5ba3bbe, 0xb2bd0b28,
   0x2bb45a92, 0x5cb36a04, 0xc2d7ffa7, 0xb5d0cf31, 0x2cd99e8b, 0x5bdeae1d,
   0x9b64c2b0, 0xec63f226, 0x756aa39c, 0x026d930a, 0x9c0906a9, 0xeb0e363f,
   0x72076785, 0x05005713, 0x95bf4a82, 0xe2b87a14, 0x7bb12bae, 0x0cb61b38,
   0x92d28e9b, 0xe5d5be0d, 0x7cdcefb7, 0x0bdbdf21, 0x86d3d2d4, 0xf1d4e242,
   0x68ddb3f8, 0x1fda836e, 0x81be16cd, 0xf6b9265b, 0x6fb077e1, 0x18b74777,
   0x88085ae6, 0xff0f6a70, 0x66063bca, 0x11010b5c, 0x8f659eff, 0xf862ae69,
   0x616bffd3, 0x166ccf45, 0xa00ae278, 0xd70dd2ee, 0x4e048354, 0x3903b3c2,
   0xa7672661, 0xd06016f7, 0x4969474d, 0x3e6e77db, 0xaed16a4a, 0xd9d65adc,
   0x40df0b66, 0x37d83bf0, 0xa9bcae53, 0xdebb9ec5, 0x47b2cf7f, 0x30b5ffe9,
   0xbdbdf21c, 0xcabac28a, 0x53b39330, 0x24b4a3a6, 0xbad03605, 0xcdd70693,
   0x54de5729, 0x23d967bf, 0xb3667a2e, 0xc4614ab8, 0x5d681b02, 0x2a6f2b94,
   0xb40bbe37, 0xc30c8ea1, 0x5a05df1b, 0x2d02ef8d
  ]"

text \<open>One round of the loop body \<open>crc = crc32_tab[(crc ^ *p++) & 0xFF] ^ (crc >> 8)\<close>.\<close>

definition crc32_step :: "u32 \<Rightarrow> u8 \<Rightarrow> u32" where
  "crc32_step crc b = crc32_tab ! unat ((crc XOR ucast b) AND 0xFF) XOR drop_bit 8 crc"

text \<open>
  \<open>while (len--)\<close> over the pointer \<open>p\<close>: the loop runs \<open>len\<close> times whatever the
  size of the object behind \<open>buf\<close>; a round whose \<open>p\<close> has left the buffer is \<open>None\<close>.
\<close>

fun crc32_loop :: "u8 list \<Rightarrow> nat \<Rightarrow> nat \<Rightarrow> u32 \<Rightarrow> u32 option" where
  "crc32_loop buf p 0 crc = Some crc"
| "crc32_loop buf p (Suc n) crc =
     (case rd8 buf p of
        None \<Rightarrow> None
      | Some b \<Rightarrow> crc32_loop buf (Suc p) n (crc32_step crc b))"

definition crc32 :: "u8 list \<Rightarrow> nat \<Rightarrow> u32 option" where
  "crc32 buf len = map_option (\<lambda>crc. crc XOR NOT 0) (crc32_loop buf 0 len (NOT 0))"

text \<open>
  The reference the table is measured against: the bit-serial reflected CRC-32 of
  IEEE 802.3, polynomial \<open>0xEDB88320\<close>, register preset to \<open>0xFFFFFFFF\<close>, result
  complemented.
\<close>

definition crc_shift :: "u32 \<Rightarrow> u32" where
  "crc_shift c = (if bit c 0 then drop_bit 1 c XOR 0xEDB88320 else drop_bit 1 c)"

definition crc_shift8 :: "u32 \<Rightarrow> u32" where
  "crc_shift8 c =
     crc_shift (crc_shift (crc_shift (crc_shift (crc_shift (crc_shift (crc_shift (crc_shift c)))))))"

definition ieee_crc32 :: "u8 list \<Rightarrow> u32" where
  "ieee_crc32 bs = fold (\<lambda>b c. crc_shift8 (c XOR ucast b)) bs (NOT 0) XOR NOT 0"

text \<open>
  The table checked entry by entry against the bit-serial reference, the index kept as a
  32-bit counter.
\<close>

fun tab_from :: "u32 \<Rightarrow> u32 list \<Rightarrow> bool" where
  "tab_from c [] = True"
| "tab_from c (x # xs) = (crc_shift8 c = x \<and> tab_from (c + 1) xs)"

section \<open>GPT header validation (nvtegraparts.c, main)\<close>

definition GPT_BLOCK_SIZE :: nat where
  "GPT_BLOCK_SIZE = 512"

definition GPT_SIGNATURE :: "u8 list" where
  "GPT_SIGNATURE = [0x45, 0x46, 0x49, 0x20, 0x50, 0x41, 0x52, 0x54]"

text \<open>
  \<open>struct gpt_header\<close>, packed: signature at 0, version at 8, size at 12, crc_self at
  16, reserved at 20, lba_self at 24, lba_alt at 32, lba_start at 40, lba_end at 48,
  uuid at 56, lba_table at 72, num_entries at 80, entry_size at 84, crc_table at 88.
  The record keeps the fields the program uses after validation.
\<close>

record gpt_header =
  size :: u32
  crc_self :: u32
  lba_table :: u64
  num_entries :: u32
  entry_size :: u32

definition le64 :: "u8 list \<Rightarrow> nat \<Rightarrow> u64" where
  "le64 buf off = ucast (le32 buf off) OR push_bit 32 (ucast (le32 buf (off + 4)))"

datatype gpt_error =
    GptIoError
  | BadSignature
  | HeaderCrcMismatch u32 u32
  | CrcOutOfBounds

text \<open>\<open>gpt_h->crc_self = 0\<close> on the block itself: bytes 16 to 19 become zero.\<close>

definition clear_crc_self :: "u8 list \<Rightarrow> u8 list" where
  "clear_crc_self blk = blk[16 := 0, 17 := 0, 18 := 0, 19 := 0]"

text \<open>
  Lines 556 to 580: the block read from the last 512 bytes of the device (\<open>gpt_block\<close>
  holds what \<open>read\<close> delivered), the signature compared byte for byte, then the CRC32 of
  the block with its own CRC field cleared, over \<open>le32toh(gpt_h->size)\<close> bytes. The
  array \<open>gpt_block\<close> has 512 bytes and the length is not compared with that; the run of
  \<open>crc32\<close> that leaves the array is \<open>CrcOutOfBounds\<close>. \<open>HeaderCrcMismatch\<close> carries the
  stored and the calculated value, in the order of the error message.
\<close>

definition gpt_check_header :: "u8 list \<Rightarrow> gpt_error + gpt_header" where
  "gpt_check_header gpt_block =
     (if length gpt_block = GPT_BLOCK_SIZE then
        (if take 8 gpt_block = GPT_SIGNATURE then
           (let stored = le32 gpt_block 16;
                blk = clear_crc_self gpt_block
            in case crc32 blk (unat (le32 blk 12)) of
                 None \<Rightarrow> Inl CrcOutOfBounds
               | Some crc \<Rightarrow>
                   if crc = stored then
                     Inr \<lparr> size = le32 blk 12, crc_self = 0, lba_table = le64 blk 72,
                           num_entries = le32 blk 80, entry_size = le32 blk 84 \<rparr>
                   else Inl (HeaderCrcMismatch stored crc))
         else Inl BadSignature)
      else Inl GptIoError)"


section \<open>Tegra partition table (nvtegraparts.c, main)\<close>

definition MAX_NUM_PARTS :: nat where
  "MAX_NUM_PARTS = 24"

definition MAX_SIZE :: nat where
  "MAX_SIZE = 4096"

text \<open>
  The source defines two constants for the version: \<open>VERSION\<close>, which no statement uses
  and which agrees with the comment on the \<open>version\<close> field, and \<open>PT_VERSION\<close>, which
  the check compares with.
\<close>

definition VERSION :: u32 where
  "VERSION = 0x00010000"

definition PT_VERSION :: u32 where
  "PT_VERSION = 0x00000100"

definition BCT_ID :: u32 where
  "BCT_ID = 2"

definition PT_BCT_NAME :: "u8 list" where
  "PT_BCT_NAME = [0x42, 0x43, 0x54, 0x00]"

definition PT_GPT_NAME :: "u8 list" where
  "PT_GPT_NAME = [0x47, 0x50, 0x54, 0x00]"

text \<open>
  \<open>struct nvtegra_partinfo\<close>, packed, 80 bytes: id at 0, name at 4, allocation_policy
  at 8, name2 at 20, fs_type at 24, virt_start_sector at 40, virt_size at 48,
  start_sector at 56, end_sector at 64, type at 72; the fields in between are the
  unknown ones. \<open>id\<close> and \<open>type\<close> carry a prefix here.
\<close>

record nvtegra_partinfo =
  part_id :: u32
  name :: "u8 list"
  allocation_policy :: u32
  name2 :: "u8 list"
  fs_type :: u32
  virt_start_sector :: u32
  virt_size :: u32
  start_sector :: u32
  end_sector :: u32
  part_type :: u32

text \<open>
  \<open>struct nvtegra_ptable\<close>, packed: version at 8, table_size at 12, num_parts at 64,
  partitions from 72. The last of the 24 records ends at byte 1992 of the 4096 read.
\<close>

definition pt_version :: "u8 list \<Rightarrow> u32" where
  "pt_version buf = le32 buf 8"

definition pt_table_size :: "u8 list \<Rightarrow> u32" where
  "pt_table_size buf = le32 buf 12"

definition pt_num_parts :: "u8 list \<Rightarrow> u32" where
  "pt_num_parts buf = le32 buf 64"

definition partitions :: "u8 list \<Rightarrow> nat \<Rightarrow> nvtegra_partinfo" where
  "partitions buf i =
     (let off = 72 + 80 * i in
      \<lparr> part_id = le32 buf off,
        name = take 4 (drop (off + 4) buf),
        allocation_policy = le32 buf (off + 8),
        name2 = take 4 (drop (off + 20) buf),
        fs_type = le32 buf (off + 24),
        virt_start_sector = le32 buf (off + 40),
        virt_size = le32 buf (off + 48),
        start_sector = le32 buf (off + 56),
        end_sector = le32 buf (off + 64),
        part_type = le32 buf (off + 72) \<rparr>)"

text \<open>\<open>memcmp(a, b, n) == 0\<close> on arrays that hold at least \<open>n\<close> bytes.\<close>

definition memcmp_eq :: "u8 list \<Rightarrow> u8 list \<Rightarrow> nat \<Rightarrow> bool" where
  "memcmp_eq a b n = (take n a = take n b)"

datatype bct_fault = BadBctId | BadBctName | BadBctStartSector

datatype pt_error =
    ReadFailed
  | VersionMismatch
  | InvalidBootConfigRecord bct_fault

text \<open>
  What a run of the partition-table stage leaves behind: the value \<open>ret\<close> stands for
  (\<open>None\<close> while no error has been met), the records handed to
  \<open>nvtegra_partition_print\<close> with their index, in order, and the pointer \<open>gpt\<close>.
\<close>

record pt_run =
  pt_ret :: "pt_error option"
  printed :: "(nat \<times> nvtegra_partinfo) list"
  gpt :: "nvtegra_partinfo option"

text \<open>
  Lines 521 to 531: \<open>for (i = 1; (i < MAX_NUM_PARTS) && (i < pt->num_parts); i++)\<close>,
  left by \<open>break\<close> at a record whose id is 128 or more. The name of the GPT record is
  compared on \<open>sizeof(PT_GPT_NAME) - 1\<close>, that is 3, bytes.
\<close>

function pt_loop ::
  "u8 list \<Rightarrow> nat \<Rightarrow> (nat \<times> nvtegra_partinfo) list \<Rightarrow> nvtegra_partinfo option
   \<Rightarrow> (nat \<times> nvtegra_partinfo) list \<times> nvtegra_partinfo option" where
  "pt_loop buf i out g =
     (if i < MAX_NUM_PARTS \<and> i < unat (pt_num_parts buf) then
        (let p = partitions buf i in
         if 128 \<le> unat (part_id p) then (out, g)
         else pt_loop buf (Suc i) (out @ [(i, p)])
                (if memcmp_eq (name p) PT_GPT_NAME 3 \<and> memcmp_eq (name2 p) PT_GPT_NAME 3
                 then Some p else g))
      else (out, g))"
  by pat_completeness auto
termination
  by (relation "measure (\<lambda>(buf, i, out, g). MAX_NUM_PARTS - i)") auto

declare pt_loop.simps [simp del]

text \<open>
  Lines 482 to 531, from \<open>fread\<close> to the end of the loop, in a run in which \<open>malloc\<close>
  and \<open>fopen\<close> succeed; \<open>dev\<close> is the content of the boot device, of which \<open>fread\<close>
  delivers the first 4096 bytes or fewer. Record 0 is printed before it is validated.
  Both BCT names are compared on \<open>sizeof(PT_BCT_NAME)\<close>, that is 4, bytes. The GPT
  stage, which follows when the loop has found a GPT record, is not part of this
  function.
\<close>

definition parse_partition_table :: "u8 list \<Rightarrow> pt_run" where
  "parse_partition_table dev =
     (let buf = take MAX_SIZE dev in
      if length buf = MAX_SIZE then
        (if pt_version buf = PT_VERSION then
           (let p = partitions buf 0 in
            if part_id p = BCT_ID then
              (if memcmp_eq (name p) PT_BCT_NAME 4 then
                 (if memcmp_eq (name2 p) PT_BCT_NAME 4 then
                    (if start_sector p = 0 then
                       (case pt_loop buf 1 [(0, p)] None of
                          (out, g) \<Rightarrow> \<lparr> pt_ret = None, printed = out, gpt = g \<rparr>)
                     else \<lparr> pt_ret = Some (InvalidBootConfigRecord BadBctStartSector),
                            printed = [(0, p)], gpt = None \<rparr>)
                  else \<lparr> pt_ret = Some (InvalidBootConfigRecord BadBctName),
                         printed = [(0, p)], gpt = None \<rparr>)
               else \<lparr> pt_ret = Some (InvalidBootConfigRecord BadBctName),
                      printed = [(0, p)], gpt = None \<rparr>)
            else \<lparr> pt_ret = Some (InvalidBootConfigRecord BadBctId),
                   printed = [(0, p)], gpt = None \<rparr>)
         else \<lparr> pt_ret = Some VersionMismatch, printed = [], gpt = None \<rparr>)
      else \<lparr> pt_ret = Some ReadFailed, printed = [], gpt = None \<rparr>)"


section \<open>GPT entry names (nvtegraparts.c, c16_to_string)\<close>













section \<open>Toradex configuration block (trdx-configblock.c)\<close>

definition TRDX_CFG_BLOCK_MAX_SIZE :: nat where
  "TRDX_CFG_BLOCK_MAX_SIZE = 512"

definition TAG_VALID :: u16 where
  "TAG_VALID = 0xcf01"

definition TAG_MAC :: u16 where
  "TAG_MAC = 0x0000"

definition TAG_HW :: u16 where
  "TAG_HW = 0x0008"

definition TAG_FLAG_VALID :: u8 where
  "TAG_FLAG_VALID = 0x1"

text \<open>
  \<open>struct toradex_tag\<close>, packed, as GCC lays bit-fields out on a little-endian target:
  \<open>len\<close> is the low 14 bits of the first 16-bit word, \<open>flags\<close> its top 2 bits, that is
  the top 2 bits of the byte at offset 1, and \<open>id\<close> the second 16-bit word. Each access
  reads the bytes of its own field.
\<close>

definition tag_len :: "u8 list \<Rightarrow> nat \<Rightarrow> u16 option" where
  "tag_len blk off = map_option (\<lambda>w. w AND 0x3FFF) (rd16 blk off)"

definition tag_flags :: "u8 list \<Rightarrow> nat \<Rightarrow> u8 option" where
  "tag_flags blk off = map_option (drop_bit 6) (rd8 blk (off + 1))"

definition tag_id :: "u8 list \<Rightarrow> nat \<Rightarrow> u16 option" where
  "tag_id blk off = rd16 blk (off + 2)"

record toradex_hw =
  ver_major :: u16
  ver_minor :: u16
  ver_assembly :: u16
  prodid :: u16

text \<open>\<open>struct toradex_eth_addr\<close>, packed: two 24-bit fields in six bytes.\<close>

record toradex_eth_addr =
  oui :: u32
  nic :: u32

definition rd24 :: "u8 list \<Rightarrow> nat \<Rightarrow> u32 option" where
  "rd24 buf off =
     (case (rd8 buf off, rd8 buf (off + 1), rd8 buf (off + 2)) of
        (Some b0, Some b1, Some b2) \<Rightarrow>
          Some (ucast b0 OR push_bit 8 (ucast b1) OR push_bit 16 (ucast b2))
      | _ \<Rightarrow> None)"

text \<open>\<open>memcpy(&hw, config_block + tag_off, sizeof(hw))\<close>: eight bytes.\<close>

definition read_hw :: "u8 list \<Rightarrow> nat \<Rightarrow> toradex_hw option" where
  "read_hw blk off =
     (case (rd16 blk off, rd16 blk (off + 2), rd16 blk (off + 4), rd16 blk (off + 6)) of
        (Some a, Some b, Some c, Some d) \<Rightarrow>
          Some \<lparr> ver_major = a, ver_minor = b, ver_assembly = c, prodid = d \<rparr>
      | _ \<Rightarrow> None)"

text \<open>\<open>memcpy(&eth_addr, config_block + tag_off, sizeof(eth_addr))\<close>: six bytes.\<close>

definition read_eth_addr :: "u8 list \<Rightarrow> nat \<Rightarrow> toradex_eth_addr option" where
  "read_eth_addr blk off =
     (case (rd24 blk off, rd24 blk (off + 3)) of
        (Some a, Some b) \<Rightarrow> Some \<lparr> oui = a, nic = b \<rparr>
      | _ \<Rightarrow> None)"

text \<open>\<open>ntohl\<close> on a little-endian host reverses the four bytes.\<close>

definition ntohl :: "u32 \<Rightarrow> u32" where
  "ntohl x =
     push_bit 24 (x AND 0xFF) OR push_bit 8 (x AND 0xFF00)
     OR drop_bit 8 (x AND 0xFF0000) OR drop_bit 24 x"

record cfg_state =
  hw :: toradex_hw
  eth_addr :: toradex_eth_addr
  serial :: u32

definition cfg_init :: cfg_state where
  "cfg_init =
     \<lparr> hw = \<lparr> ver_major = 0, ver_minor = 0, ver_assembly = 0, prodid = 0 \<rparr>,
       eth_addr = \<lparr> oui = 0, nic = 0 \<rparr>,
       serial = 0 \<rparr>"

text \<open>
  Lines 168 to 189, the walk over the tags. The cursor \<open>tag_off\<close> is compared with
  nothing; a read that leaves the block is \<open>None\<close>. The reads come in the order of the
  source: \<open>flags\<close>, \<open>id\<close>, the payload of a MAC or HW tag, \<open>len\<close>.
\<close>

function tag_walk :: "u8 list \<Rightarrow> nat \<Rightarrow> cfg_state \<Rightarrow> cfg_state option" where
  "tag_walk blk tag_off st =
     (case tag_flags blk tag_off of
        None \<Rightarrow> None
      | Some fl \<Rightarrow>
          if fl = TAG_FLAG_VALID then
            (case tag_id blk tag_off of
               None \<Rightarrow> None
             | Some tid \<Rightarrow>
                 (case (if tid = TAG_MAC then
                          map_option
                            (\<lambda>e. st \<lparr> eth_addr := e, serial := drop_bit 8 (ntohl (nic e)) \<rparr>)
                            (read_eth_addr blk (tag_off + 4))
                        else if tid = TAG_HW then
                          map_option (\<lambda>h. st \<lparr> hw := h \<rparr>) (read_hw blk (tag_off + 4))
                        else Some st) of
                    None \<Rightarrow> None
                  | Some st' \<Rightarrow>
                      (case tag_len blk tag_off of
                         None \<Rightarrow> None
                       | Some l \<Rightarrow> tag_walk blk (tag_off + 4 + unat l * 4) st')))
          else Some st)"
  by pat_completeness auto
termination
  by (relation "measure (\<lambda>(blk, tag_off, st). length blk - tag_off)")
     (auto simp: tag_flags_def rd8_def split: if_splits)

declare tag_walk.simps [simp del]

text \<open>
  The table \<open>toradex_modules\<close>: 32 entries, those at 18 and 19 null pointers.
\<close>

definition toradex_modules :: "string option list" where
  "toradex_modules =
     [Some ''invalid'', Some ''Colibri PXA270 312MHz'', Some ''Colibri PXA270 520MHz'',
      Some ''Colibri PXA320 806MHz'', Some ''Colibri PXA300 208MHz'',
      Some ''Colibri PXA310 624MHz'', Some ''Colibri PXA320 806MHz IT'',
      Some ''Colibri PXA300 208MHz XT'', Some ''Colibri PXA270 312MHz'',
      Some ''Colibri PXA270 520MHz'', Some ''Colibri VF50 128MB'',
      Some ''Colibri VF61 256MB'', Some ''Colibri VF61 256MB IT'',
      Some ''Colibri VF50 128MB IT'', Some ''Colibri iMX6 Solo 256MB'',
      Some ''Colibri iMX6 DualLite 512MB'', Some ''Colibri iMX6 Solo 256MB IT'',
      Some ''Colibri iMX6 DualLite 512MB IT'', None, None,
      Some ''Colibri T20 256MB'', Some ''Colibri T20 512MB'', Some ''Colibri T20 512MB IT'',
      Some ''Colibri T30 1GB'', Some ''Colibri T20 256MB IT'', Some ''Apalis T30 2GB'',
      Some ''Apalis T30 1GB'', Some ''Apalis iMX6 Quad 1GB'',
      Some ''Apalis iMX6 Quad 2GB IT'', Some ''Apalis iMX6 Dual 512MB'',
      Some ''Colibri T30 1GB IT'', Some ''Apalis T30 1GB IT'']"

text \<open>
  What the system calls of one run answer: the descriptor from \<open>open\<close>, the position from
  \<open>lseek64\<close>, the return value of \<open>read\<close>, and the 512 bytes \<open>config_block\<close> holds
  after the call of \<open>read\<close> (bytes that \<open>read\<close> did not deliver are whatever \<open>malloc\<close>
  left there).
\<close>

record cfg_calls =
  open_fd :: int
  seek_pos :: int
  read_ret :: int
  config_block :: "u8 list"

text \<open>
  The outcomes of \<open>read_config_block\<close>. \<open>IoError\<close> is the return of -1 after a failed
  \<open>open\<close>, \<open>lseek64\<close> or \<open>read\<close>; \<open>NoConfigBlock\<close> the return (of 0) behind the
  warning that no valid block was found; \<open>ConfigBlock\<close> the values printed: the entry of
  \<open>toradex_modules\<close>, the decoded tags and the serial number; \<open>CfgOutOfBounds\<close> a read
  outside \<open>config_block\<close> or outside \<open>toradex_modules\<close>.
\<close>

datatype cfg_outcome =
    IoError
  | NoConfigBlock
  | ConfigBlock "string option" cfg_state
  | CfgOutOfBounds

text \<open>
  \<open>len = read(fd, config_block, read_size)\<close> stores the \<open>ssize_t\<close> result in a
  \<open>size_t\<close> of 32 bits, and \<open>len < read_size\<close> compares unsigned.
\<close>

definition read_len :: "int \<Rightarrow> u32" where
  "read_len r = word_of_int r"

definition read_config_block :: "cfg_calls \<Rightarrow> cfg_outcome" where
  "read_config_block c =
     (if open_fd c < 0 then IoError
      else if seek_pos c = -1 then IoError
      else if read_len (read_ret c) < word_of_nat TRDX_CFG_BLOCK_MAX_SIZE then IoError
      else
        (case (tag_flags (config_block c) 0, tag_id (config_block c) 0) of
           (Some fl, Some tid) \<Rightarrow>
             if fl \<noteq> TAG_FLAG_VALID \<and> tid \<noteq> TAG_VALID then NoConfigBlock
             else
               (case tag_walk (config_block c) 4 cfg_init of
                  None \<Rightarrow> CfgOutOfBounds
                | Some st \<Rightarrow>
                    if unat (prodid (hw st)) < length toradex_modules
                    then ConfigBlock (toradex_modules ! unat (prodid (hw st))) st
                    else CfgOutOfBounds)
         | _ \<Rightarrow> CfgOutOfBounds))"

section \<open>Sample inputs\<close>

text \<open>
  A GPT header block of the usual 92 bytes (revision 1.0, four entries of 128 bytes from
  block 2) with its CRC32 stored at offset 16, followed by 420 zero bytes.
\<close>


definition gpt_sample :: "u8 list" where
  "gpt_sample =
     [
      0x45, 0x46, 0x49, 0x20, 0x50, 0x41, 0x52, 0x54, 0x00, 0x00, 0x01, 0x00, 0x5c, 0x00, 0x00, 0x00,
      0xf9, 0xbf, 0xd9, 0x7b, 0x00, 0x00, 0x00, 0x00, 0x01, 0x00, 0x00, 0x00, 0x00, 0x00, 0x00, 0x00,
      0x00, 0x00, 0x00, 0x00, 0x00, 0x00, 0x00, 0x00, 0x00, 0x00, 0x00, 0x00, 0x00, 0x00, 0x00, 0x00,
      0x00, 0x00, 0x00, 0x00, 0x00, 0x00, 0x00, 0x00, 0x00, 0x00, 0x00, 0x00, 0x00, 0x00, 0x00, 0x00,
      0x00, 0x00, 0x00, 0x00, 0x00, 0x00, 0x00, 0x00, 0x02, 0x00, 0x00, 0x00, 0x00, 0x00, 0x00, 0x00,
      0x04, 0x00, 0x00, 0x00, 0x80, 0x00, 0x00, 0x00, 0x40, 0x1e, 0x21, 0xf8
     ] @ replicate 420 0"

text \<open>A block with the signature and a size field of 513.\<close>

definition gpt_oversized :: "u8 list" where
  "gpt_oversized =
     [0x45, 0x46, 0x49, 0x20, 0x50, 0x41, 0x52, 0x54, 0x00, 0x00, 0x01, 0x00,
      0x01, 0x02, 0x00, 0x00] @ replicate 496 0"

text \<open>
  Partition-table images built field by field: a header of 72 bytes with the given
  version and number of partitions, the given 80-byte records behind it, zero bytes up
  to 4096.
\<close>

definition u32_bytes :: "u32 \<Rightarrow> u8 list" where
  "u32_bytes w = [ucast w, ucast (drop_bit 8 w), ucast (drop_bit 16 w), ucast (drop_bit 24 w)]"

definition partinfo_bytes :: "u32 \<Rightarrow> u8 list \<Rightarrow> u8 list \<Rightarrow> u32 \<Rightarrow> u8 list" where
  "partinfo_bytes i nm nm2 start =
     u32_bytes i @ nm @ replicate 12 0 @ nm2 @ replicate 32 0 @ u32_bytes start @ replicate 20 0"

definition pt_image :: "u32 \<Rightarrow> u32 \<Rightarrow> u8 list list \<Rightarrow> u8 list" where
  "pt_image v n recs =
     take 4096 (replicate 8 0 @ u32_bytes v @ replicate 52 0 @ u32_bytes n @ replicate 4 0
                @ concat recs @ replicate 4096 0)"

text \<open>The record "BCT" with id 2 at sector 0, and records named "GPT" and "APP".\<close>

definition bct_record :: "u8 list" where
  "bct_record = partinfo_bytes 2 [0x42, 0x43, 0x54, 0x00] [0x42, 0x43, 0x54, 0x00] 0"

definition gpt_record :: "u8 list" where
  "gpt_record = partinfo_bytes 5 [0x47, 0x50, 0x54, 0x00] [0x47, 0x50, 0x54, 0x00] 0x1000"

definition app_record :: "u32 \<Rightarrow> u8 list" where
  "app_record i = partinfo_bytes i [0x41, 0x50, 0x50, 0x00] [0x41, 0x50, 0x50, 0x00] 0x2000"

text \<open>
  A table of three partitions with the version the check compares with; the same table
  with the version of the field's comment; with a fourth name byte in record 0; with a
  declared count of 0; and with an id of 200 in record 2 of 4.
\<close>

definition pt_sample :: "u8 list" where
  "pt_sample = pt_image 0x00000100 3 [bct_record, gpt_record, app_record 6]"

definition pt_documented_version :: "u8 list" where
  "pt_documented_version = pt_image 0x00010000 3 [bct_record, gpt_record, app_record 6]"

definition pt_bct_fourth_byte :: "u8 list" where
  "pt_bct_fourth_byte =
     pt_image 0x00000100 3
       [partinfo_bytes 2 [0x42, 0x43, 0x54, 0x58] [0x42, 0x43, 0x54, 0x00] 0,
        gpt_record, app_record 6]"

definition pt_no_parts :: "u8 list" where
  "pt_no_parts = pt_image 0x00000100 0 [bct_record]"

definition pt_truncated :: "u8 list" where
  "pt_truncated =
     pt_image 0x00000100 4 [bct_record, gpt_record, app_record 200, app_record 7]"

text \<open>
  Configuration blocks: the sentinel tag, a HW tag (version 1.1A, product 25) and a MAC
  tag (00:14:2d:12:34:56), then zero bytes; a block whose first tag has the valid flag
  and the id \<open>0x1234\<close>; a block whose second tag has the valid flag and a length of
  127 words; and a block of zero bytes.
\<close>

definition cfg_sample :: "u8 list" where
  "cfg_sample =
     [0x00, 0x40, 0x01, 0xcf,
      0x02, 0x40, 0x08, 0x00, 0x01, 0x00, 0x01, 0x00, 0x00, 0x00, 0x19, 0x00,
      0x02, 0x40, 0x00, 0x00, 0x00, 0x14, 0x2d, 0x12, 0x34, 0x56, 0x00, 0x00]
     @ replicate 484 0"

definition cfg_wrong_id :: "u8 list" where
  "cfg_wrong_id = [0x00, 0x40, 0x34, 0x12] @ replicate 508 0"

definition cfg_overrun :: "u8 list" where
  "cfg_overrun = [0x00, 0x40, 0x01, 0xcf, 0x7f, 0x40, 0x34, 0x12] @ replicate 504 0"

definition cfg_zero :: "u8 list" where
  "cfg_zero = replicate 512 0"

text \<open>The calls of a run in which \<open>open\<close> and \<open>lseek64\<close> succeed.\<close>

definition cfg_run :: "int \<Rightarrow> u8 list \<Rightarrow> cfg_calls" where
  "cfg_run r blk = \<lparr> open_fd = 3, seek_pos = 0, read_ret = r, config_block = blk \<rparr>"





section \<open>The CRC32 table and the bit-serial CRC\<close>

lemma tab_len: "length crc32_tab = 256" by (simp add: crc32_tab_def)

lemma tab_from_nth:
  "tab_from c xs \<Longrightarrow> i < length xs \<Longrightarrow> xs ! i = crc_shift8 (c + of_nat i)"
proof (induction xs arbitrary: c i)
  case Nil
  then show ?case by simp
next
  case (Cons x xs)
  show ?case
  proof (cases i)
    case 0
    with Cons.prems show ?thesis by simp
  next
    case (Suc j)
    with Cons.prems have "xs ! j = crc_shift8 (c + 1 + of_nat j)"
      by (intro Cons.IH) simp_all
    with Suc show ?thesis by (simp add: ac_simps)
  qed
qed

lemma mask8: "(0xFF :: u32) = mask 8"
  by (simp add: mask_eq_exp_minus_1)

lemma crc_shift_xor: "crc_shift (a XOR b) = crc_shift a XOR crc_shift b"
  by (cases "bit a 0"; cases "bit b 0")
     (simp_all add: crc_shift_def bit_xor_iff drop_bit_eq_div [symmetric] ac_simps, (simp add: xor.assoc [symmetric])?)

lemma crc_shift8_xor: "crc_shift8 (a XOR b) = crc_shift8 a XOR crc_shift8 b"
  by (simp add: crc_shift8_def crc_shift_xor)

lemma crc_shift_drop:
  "\<not> bit y k \<Longrightarrow> crc_shift (drop_bit k y) = drop_bit (Suc k) y"
  by (simp add: crc_shift_def bit_drop_bit_eq drop_bit_drop_bit)

lemma crc_shift8_high:
  assumes "y AND 0xFF = 0"
  shows "crc_shift8 y = drop_bit 8 y"
proof -
  have b: "\<not> bit y k" if "k < 8" for k
  proof
    assume "bit y k"
    with that have "bit (y AND mask 8) k"
      by (simp add: bit_and_iff bit_mask_iff)
    with assms show False by (simp add: mask8)
  qed
  have "crc_shift8 y = crc_shift8 (drop_bit 0 y)" by simp
  also have "\<dots> = drop_bit 8 y"
    unfolding crc_shift8_def
    using b [of 0] b [of 1] b [of 2] b [of 3] b [of 4] b [of 5] b [of 6] b [of 7]
    by (simp add: crc_shift_drop eval_nat_numeral del: drop_bit_0)
  finally show ?thesis .
qed

lemma split_low: "(x :: u32) = (x AND 0xFF) XOR (x AND NOT 0xFF)"
  by (simp add: bit_eq_iff bit_simps) blast

lemma high_low0: "((x :: u32) AND NOT 0xFF) AND 0xFF = 0"
  by (simp add: and.assoc)

lemma drop8_high: "drop_bit 8 ((x :: u32) AND NOT 0xFF) = drop_bit 8 x"
  unfolding mask8 by (auto simp add: bit_eq_iff bit_simps dest: bit_imp_le_length)

lemma drop8_xor_byte: "drop_bit 8 ((c :: u32) XOR ucast (b :: u8)) = drop_bit 8 c"
  by (auto simp add: bit_eq_iff bit_simps dest: bit_imp_le_length)

lemma unat_low: "unat ((x :: u32) AND 0xFF) < 256"
proof -
  have "x AND 0xFF = take_bit 8 x" by (simp add: mask8 take_bit_eq_mask)
  then have "unat (x AND 0xFF) = take_bit 8 (unat x)" by (simp add: unsigned_take_bit_eq)
  then show ?thesis by (simp add: take_bit_eq_mod)
qed

lemma tab_ok: "tab_from 0 crc32_tab"
  by code_simp

lemma tab_lookup: "crc32_tab ! unat ((x :: u32) AND 0xFF) = crc_shift8 (x AND 0xFF)"
  using tab_from_nth [OF tab_ok, of "unat (x AND 0xFF)"] unat_low [of x]
  by (simp add: tab_len)

lemma crc32_step_shift8: "crc32_step crc b = crc_shift8 (crc XOR ucast b)"
proof -
  define x where "x = crc XOR ucast b"
  have "crc_shift8 x = crc_shift8 ((x AND 0xFF) XOR (x AND NOT 0xFF))"
    using split_low [of x] by simp
  also have "\<dots> = crc_shift8 (x AND 0xFF) XOR drop_bit 8 (x AND NOT 0xFF)"
    by (simp only: crc_shift8_xor crc_shift8_high [OF high_low0])
  also have "\<dots> = crc32_tab ! unat (x AND 0xFF) XOR drop_bit 8 x"
    by (simp only: tab_lookup drop8_high)
  also have "drop_bit 8 x = drop_bit 8 crc"
    unfolding x_def by (rule drop8_xor_byte)
  finally show ?thesis by (simp add: crc32_step_def x_def)
qed

lemma crc_shift_zero: "crc_shift x = 0 \<Longrightarrow> x = 0"
proof (cases "bit x 0")
  case True
  assume z: "crc_shift x = 0"
  have "bit (crc_shift x) 31"
    using True by (auto simp add: crc_shift_def bit_xor_iff bit_drop_bit_eq bit_simps dest: bit_imp_le_length)
  with z show ?thesis by simp
next
  case False
  assume z: "crc_shift x = 0"
  with False have d: "drop_bit 1 x = 0" by (simp add: crc_shift_def)
  show ?thesis
  proof (rule bit_eqI)
    fix n
    show "bit x n = bit (0 :: u32) n"
    proof (cases n)
      case 0
      with False show ?thesis by simp
    next
      case (Suc m)
      have "bit (drop_bit 1 x) m = bit x (Suc m)" by (simp add: bit_drop_bit_eq)
      with d Suc show ?thesis by simp
    qed
  qed
qed

lemma crc_shift_inj: "crc_shift a = crc_shift b \<Longrightarrow> a = b"
proof -
  assume "crc_shift a = crc_shift b"
  then have "crc_shift (a XOR b) = 0" by (simp add: crc_shift_xor)
  then have "a XOR b = 0" by (rule crc_shift_zero)
  then have "(a XOR b) XOR b = 0 XOR b" by simp
  then show "a = b" by (simp add: xor.assoc)
qed

lemma crc_shift8_inj: "crc_shift8 a = crc_shift8 b \<Longrightarrow> a = b"
  unfolding crc_shift8_def by (blast dest: crc_shift_inj)

lemma xor_cancel_right: "(a :: u32) XOR k = b XOR k \<Longrightarrow> a = b"
proof -
  assume "a XOR k = b XOR k"
  then have "(a XOR k) XOR k = (b XOR k) XOR k" by simp
  then show "a = b" by (simp add: xor.assoc)
qed

lemma xor_cancel_left: "(k :: u32) XOR a = k XOR b \<Longrightarrow> a = b"
proof -
  assume "k XOR a = k XOR b"
  then have "k XOR (k XOR a) = k XOR (k XOR b)" by simp
  then show "a = b" by (simp add: xor.assoc [symmetric])
qed

lemma step_inj_crc: "crc32_step c1 b = crc32_step c2 b \<Longrightarrow> c1 = c2"
proof -
  assume "crc32_step c1 b = crc32_step c2 b"
  then have "c1 XOR ucast b = c2 XOR ucast b"
    unfolding crc32_step_shift8 by (rule crc_shift8_inj)
  then show "c1 = c2" by (rule xor_cancel_right)
qed

lemma step_inj_byte: "crc32_step c b1 = crc32_step c b2 \<Longrightarrow> b1 = b2"
proof -
  assume "crc32_step c b1 = crc32_step c b2"
  then have "c XOR ucast b1 = c XOR ucast b2"
    unfolding crc32_step_shift8 by (rule crc_shift8_inj)
  then have "(ucast b1 :: u32) = ucast b2" by (rule xor_cancel_left)
  then have "uint (ucast b1 :: u32) = uint (ucast b2 :: u32)" by simp
  then have "uint b1 = uint b2" by (simp add: uint_up_ucast is_up)
  then show "b1 = b2" by (rule word_uint_eqI)
qed

lemma loop_fold:
  "p + n \<le> length buf \<Longrightarrow>
   crc32_loop buf p n crc = Some (fold (\<lambda>b c. crc32_step c b) (take n (drop p buf)) crc)"
proof (induction n arbitrary: p crc)
  case 0
  then show ?case by simp
next
  case (Suc n)
  then have p: "p < length buf" by simp
  then have "take (Suc n) (drop p buf) = buf ! p # take n (drop (Suc p) buf)"
    by (simp add: Cons_nth_drop_Suc [symmetric])
  with Suc p show ?case by (simp add: rd8_def)
qed

lemma loop_oob:
  "p \<le> length buf \<Longrightarrow> length buf < p + n \<Longrightarrow> crc32_loop buf p n crc = None"
proof (induction n arbitrary: p crc)
  case 0
  then show ?case by simp
next
  case (Suc n)
  then show ?case by (simp add: rd8_def)
qed

lemma fold_inj:
  "fold (\<lambda>b c. crc32_step c b) bs c1 = fold (\<lambda>b c. crc32_step c b) bs c2 \<Longrightarrow> c1 = c2"
  by (induction bs arbitrary: c1 c2) (auto dest: step_inj_crc)

lemma fold_one_byte:
  assumes "i < length bs" "b \<noteq> bs ! i"
  shows "fold (\<lambda>b c. crc32_step c b) (bs[i := b]) c \<noteq> fold (\<lambda>b c. crc32_step c b) bs c"
  using assms
proof (induction bs arbitrary: i c)
  case Nil
  then show ?case by simp
next
  case (Cons x xs)
  show ?case
  proof (cases i)
    case 0
    with Cons.prems show ?thesis by (auto dest!: fold_inj step_inj_byte)
  next
    case (Suc j)
    with Cons show ?thesis by simp
  qed
qed



lemma crc32_fold:
  "crc32 bs (length bs) = Some (fold (\<lambda>b c. crc32_step c b) bs (NOT 0) XOR NOT 0)"
  by (simp add: crc32_def loop_fold)

lemma fold_step_shift8:
  "fold (\<lambda>b c. crc32_step c b) bs c = fold (\<lambda>b c. crc_shift8 (c XOR ucast b)) bs c"
  by (induction bs arbitrary: c) (simp_all add: crc32_step_shift8)

lemma crc32_tab_generated:
  "crc32_tab = map (\<lambda>n. crc_shift8 (word_of_nat n)) [0..<256]"
proof (rule nth_equalityI)
  show "length crc32_tab = length (map (\<lambda>n. crc_shift8 (word_of_nat n)) [0..<256])"
    by (simp add: tab_len)
next
  fix i
  assume "i < length crc32_tab"
  then have i: "i < 256" by (simp add: tab_len)
  then have "crc32_tab ! i = crc_shift8 (0 + word_of_nat i)"
    by (intro tab_from_nth [OF tab_ok]) (simp add: tab_len)
  moreover have "map (\<lambda>n. crc_shift8 (word_of_nat n)) [0..<256] ! i = crc_shift8 (word_of_nat i)"
    using i by (simp del: upt_Suc)
  ultimately show "crc32_tab ! i = map (\<lambda>n. crc_shift8 (word_of_nat n)) [0..<256] ! i"
    by simp
qed

text \<open>
  C7. \<open>crc32\<close> is the reflected CRC-32 of IEEE 802.3: on every byte sequence, taken over
  its whole length, it returns the value of the bit-serial algorithm with polynomial
  \<open>0xEDB88320\<close>, preset \<open>0xFFFFFFFF\<close> and final complement, and it has exactly one
  result there; its table is, entry by entry, eight shift steps of the index; the empty
  sequence gives 0 and the ASCII bytes of "123456789" give \<open>0xCBF43926\<close>.
\<close>

theorem crc32_ieee_802_3:
  "crc32 [] 0 = Some 0
   \<and> crc32 [0x31, 0x32, 0x33, 0x34, 0x35, 0x36, 0x37, 0x38, 0x39] 9 = Some 0xCBF43926
   \<and> (\<forall>bs. crc32 bs (length bs) = Some (ieee_crc32 bs))
   \<and> (\<forall>bs. \<exists>!r. crc32 bs (length bs) = Some r)
   \<and> crc32_tab = map (\<lambda>n. crc_shift8 (word_of_nat n)) [0..<256]"
proof -
  have empty: "crc32 [] 0 = Some 0"
    by (simp add: crc32_def)
  have vec: "crc32 [0x31, 0x32, 0x33, 0x34, 0x35, 0x36, 0x37, 0x38, 0x39] 9 = Some 0xCBF43926"
    by code_simp
  have ieee: "crc32 bs (length bs) = Some (ieee_crc32 bs)" for bs
    by (simp add: crc32_fold fold_step_shift8 ieee_crc32_def)
  have one: "\<exists>!r. crc32 bs (length bs) = Some r" for bs
    by (simp add: ieee)
  from empty vec ieee one crc32_tab_generated show ?thesis
    by blast
qed

section \<open>The GPT header check\<close>

lemma crc32_oob: "length buf < n \<Longrightarrow> crc32 buf n = None"
  by (simp add: crc32_def loop_oob)

lemma crc32_in_range:
  "n \<le> length buf \<Longrightarrow>
   crc32 buf n = Some (fold (\<lambda>b c. crc32_step c b) (take n buf) (NOT 0) XOR NOT 0)"
  by (simp add: crc32_def loop_fold)

lemma crc32_Some_in_range: "crc32 buf n = Some c \<Longrightarrow> n \<le> length buf"
  by (rule ccontr) (simp add: crc32_oob)

lemma length_clear_crc_self: "length (clear_crc_self blk) = length blk"
  by (simp add: clear_crc_self_def)

lemma le32_size_clear: "le32 (clear_crc_self blk) 12 = le32 blk 12"
  by (simp add: clear_crc_self_def le32_def)

lemma gpt_check_header_oob:
  assumes "length blk = 512" "take 8 blk = GPT_SIGNATURE" "512 < unat (le32 blk 12)"
  shows "gpt_check_header blk = Inl CrcOutOfBounds"
  using assms
  by (simp add: gpt_check_header_def GPT_BLOCK_SIZE_def le32_size_clear crc32_oob
      length_clear_crc_self)

lemma gpt_check_header_in_range:
  assumes "length blk = 512" "take 8 blk = GPT_SIGNATURE" "unat (le32 blk 12) = n" "n \<le> 512"
    and "fold (\<lambda>b c. crc32_step c b) (take n (clear_crc_self blk)) (NOT 0) XOR NOT 0 = crc"
  shows "gpt_check_header blk =
         (if crc = le32 blk 16 then
            Inr \<lparr> size = le32 blk 12, crc_self = 0, lba_table = le64 (clear_crc_self blk) 72,
                  num_entries = le32 (clear_crc_self blk) 80,
                  entry_size = le32 (clear_crc_self blk) 84 \<rparr>
          else Inl (HeaderCrcMismatch (le32 blk 16) crc))"
  using assms
  by (simp add: gpt_check_header_def GPT_BLOCK_SIZE_def le32_size_clear crc32_in_range
      length_clear_crc_self Let_def)

subsection \<open>The sample blocks\<close>

lemma gpt_oversized_length: "length gpt_oversized = 512"
  by (simp add: gpt_oversized_def)

lemma gpt_oversized_signature: "take 8 gpt_oversized = GPT_SIGNATURE"
  by (simp add: gpt_oversized_def GPT_SIGNATURE_def)

lemma gpt_oversized_size: "le32 gpt_oversized 12 = 513"
  by (simp add: gpt_oversized_def le32_def)

lemma gpt_sample_length: "length gpt_sample = 512"
  by (simp add: gpt_sample_def)

lemma gpt_sample_signature: "take 8 gpt_sample = GPT_SIGNATURE"
  by (simp add: gpt_sample_def GPT_SIGNATURE_def)

lemma gpt_sample_size: "le32 gpt_sample 12 = 92"
  by (simp add: gpt_sample_def le32_def)

lemma gpt_sample_stored: "le32 gpt_sample 16 = 0x7bd9bff9"
  by (simp add: gpt_sample_def le32_def)

lemma gpt_sample_window:
  "take 92 (clear_crc_self gpt_sample) =
    [0x45, 0x46, 0x49, 0x20, 0x50, 0x41, 0x52, 0x54, 0x00, 0x00, 0x01, 0x00, 0x5c, 0x00, 0x00, 0x00,
     0x00, 0x00, 0x00, 0x00, 0x00, 0x00, 0x00, 0x00, 0x01, 0x00, 0x00, 0x00, 0x00, 0x00, 0x00, 0x00,
     0x00, 0x00, 0x00, 0x00, 0x00, 0x00, 0x00, 0x00, 0x00, 0x00, 0x00, 0x00, 0x00, 0x00, 0x00, 0x00,
     0x00, 0x00, 0x00, 0x00, 0x00, 0x00, 0x00, 0x00, 0x00, 0x00, 0x00, 0x00, 0x00, 0x00, 0x00, 0x00,
     0x00, 0x00, 0x00, 0x00, 0x00, 0x00, 0x00, 0x00, 0x02, 0x00, 0x00, 0x00, 0x00, 0x00, 0x00, 0x00,
     0x04, 0x00, 0x00, 0x00, 0x80, 0x00, 0x00, 0x00, 0x40, 0x1e, 0x21, 0xf8]"
  by (simp add: clear_crc_self_def gpt_sample_def)

lemma gpt_sample_window_crc:
  "fold (\<lambda>b c. crc32_step c b)
    [0x45, 0x46, 0x49, 0x20, 0x50, 0x41, 0x52, 0x54, 0x00, 0x00, 0x01, 0x00, 0x5c, 0x00, 0x00, 0x00,
     0x00, 0x00, 0x00, 0x00, 0x00, 0x00, 0x00, 0x00, 0x01, 0x00, 0x00, 0x00, 0x00, 0x00, 0x00, 0x00,
     0x00, 0x00, 0x00, 0x00, 0x00, 0x00, 0x00, 0x00, 0x00, 0x00, 0x00, 0x00, 0x00, 0x00, 0x00, 0x00,
     0x00, 0x00, 0x00, 0x00, 0x00, 0x00, 0x00, 0x00, 0x00, 0x00, 0x00, 0x00, 0x00, 0x00, 0x00, 0x00,
     0x00, 0x00, 0x00, 0x00, 0x00, 0x00, 0x00, 0x00, 0x02, 0x00, 0x00, 0x00, 0x00, 0x00, 0x00, 0x00,
     0x04, 0x00, 0x00, 0x00, 0x80, 0x00, 0x00, 0x00, 0x40, 0x1e, 0x21, 0xf8]
    (NOT 0) XOR NOT 0 = 0x7bd9bff9"
  by code_simp

lemma gpt_sample_fields:
  "le64 (clear_crc_self gpt_sample) 72 = 2"
  "le32 (clear_crc_self gpt_sample) 80 = 4"
  "le32 (clear_crc_self gpt_sample) 84 = 128"
  by (simp_all add: clear_crc_self_def gpt_sample_def le32_def le64_def)

lemma gpt_sample_accepted:
  "gpt_check_header gpt_sample =
     Inr \<lparr> size = 92, crc_self = 0, lba_table = 2, num_entries = 4, entry_size = 128 \<rparr>"
proof -
  have "fold (\<lambda>b c. crc32_step c b) (take 92 (clear_crc_self gpt_sample)) (NOT 0) XOR NOT 0
        = 0x7bd9bff9"
    by (simp only: gpt_sample_window gpt_sample_window_crc)
  from gpt_check_header_in_range [OF gpt_sample_length gpt_sample_signature _ _ this]
  show ?thesis
    by (simp add: gpt_sample_size gpt_sample_stored gpt_sample_fields)
qed

lemma gpt_sample_crc:
  "crc32 (clear_crc_self gpt_sample) (unat (le32 gpt_sample 12)) = Some (le32 gpt_sample 16)"
proof -
  have "crc32 (clear_crc_self gpt_sample) 92 =
        Some (fold (\<lambda>b c. crc32_step c b) (take 92 (clear_crc_self gpt_sample)) (NOT 0) XOR NOT 0)"
    by (rule crc32_in_range) (simp add: length_clear_crc_self gpt_sample_length)
  then show ?thesis
    by (simp only: gpt_sample_window gpt_sample_window_crc gpt_sample_size gpt_sample_stored)
       simp
qed


subsection \<open>One altered byte\<close>

lemma clear_crc_self_update:
  assumes "i < 16 \<or> 20 \<le> i"
  shows "clear_crc_self (blk[i := b]) = (clear_crc_self blk)[i := b]"
proof -
  from assms have "i \<noteq> 16" "i \<noteq> 17" "i \<noteq> 18" "i \<noteq> 19" by auto
  then show ?thesis
    by (simp add: clear_crc_self_def list_update_swap [of i])
qed

lemma clear_crc_self_nth:
  assumes "i < 16 \<or> 20 \<le> i"
  shows "clear_crc_self blk ! i = blk ! i"
proof -
  from assms have "i \<noteq> 16" "i \<noteq> 17" "i \<noteq> 18" "i \<noteq> 19" by auto
  then show ?thesis
    by (simp add: clear_crc_self_def)
qed

lemma le32_update_other:
  assumes "i < off \<or> off + 4 \<le> i"
  shows "le32 (blk[i := b]) off = le32 blk off"
proof -
  from assms have "i \<noteq> off" "i \<noteq> off + 1" "i \<noteq> off + 2" "i \<noteq> off + 3" by auto
  then show ?thesis
    by (simp add: le32_def)
qed

lemma gpt_resized_window:
  "take 93 (clear_crc_self (gpt_sample[12 := 93])) =
    [0x45, 0x46, 0x49, 0x20, 0x50, 0x41, 0x52, 0x54, 0x00, 0x00, 0x01, 0x00, 0x5d, 0x00, 0x00, 0x00,
     0x00, 0x00, 0x00, 0x00, 0x00, 0x00, 0x00, 0x00, 0x01, 0x00, 0x00, 0x00, 0x00, 0x00, 0x00, 0x00,
     0x00, 0x00, 0x00, 0x00, 0x00, 0x00, 0x00, 0x00, 0x00, 0x00, 0x00, 0x00, 0x00, 0x00, 0x00, 0x00,
     0x00, 0x00, 0x00, 0x00, 0x00, 0x00, 0x00, 0x00, 0x00, 0x00, 0x00, 0x00, 0x00, 0x00, 0x00, 0x00,
     0x00, 0x00, 0x00, 0x00, 0x00, 0x00, 0x00, 0x00, 0x02, 0x00, 0x00, 0x00, 0x00, 0x00, 0x00, 0x00,
     0x04, 0x00, 0x00, 0x00, 0x80, 0x00, 0x00, 0x00, 0x40, 0x1e, 0x21, 0xf8, 0x00]"
  by code_simp

lemma gpt_resized_window_crc:
  "fold (\<lambda>b c. crc32_step c b)
    [0x45, 0x46, 0x49, 0x20, 0x50, 0x41, 0x52, 0x54, 0x00, 0x00, 0x01, 0x00, 0x5d, 0x00, 0x00, 0x00,
     0x00, 0x00, 0x00, 0x00, 0x00, 0x00, 0x00, 0x00, 0x01, 0x00, 0x00, 0x00, 0x00, 0x00, 0x00, 0x00,
     0x00, 0x00, 0x00, 0x00, 0x00, 0x00, 0x00, 0x00, 0x00, 0x00, 0x00, 0x00, 0x00, 0x00, 0x00, 0x00,
     0x00, 0x00, 0x00, 0x00, 0x00, 0x00, 0x00, 0x00, 0x00, 0x00, 0x00, 0x00, 0x00, 0x00, 0x00, 0x00,
     0x00, 0x00, 0x00, 0x00, 0x00, 0x00, 0x00, 0x00, 0x02, 0x00, 0x00, 0x00, 0x00, 0x00, 0x00, 0x00,
     0x04, 0x00, 0x00, 0x00, 0x80, 0x00, 0x00, 0x00, 0x40, 0x1e, 0x21, 0xf8, 0x00]
    (NOT 0) XOR NOT 0 = 0x7bd9bff9"
  by code_simp

lemma gpt_resized_facts:
  "take 8 (gpt_sample[12 := 93]) = GPT_SIGNATURE"
  "unat (le32 (gpt_sample[12 := 93]) 12) = 93"
  "le32 (gpt_sample[12 := 93]) 12 = 93"
  "le32 (gpt_sample[12 := 93]) 16 = 0x7bd9bff9"
  "le64 (clear_crc_self (gpt_sample[12 := 93])) 72 = 2"
  "le32 (clear_crc_self (gpt_sample[12 := 93])) 80 = 4"
  "le32 (clear_crc_self (gpt_sample[12 := 93])) 84 = 128"
  by code_simp+

lemma gpt_resized_accepted:
  "gpt_check_header (gpt_sample[12 := 93]) =
     Inr \<lparr> size = 93, crc_self = 0, lba_table = 2, num_entries = 4, entry_size = 128 \<rparr>"
proof -
  have l: "length (gpt_sample[12 := 93]) = 512"
    by (simp add: gpt_sample_length)
  have "fold (\<lambda>b c. crc32_step c b) (take 93 (clear_crc_self (gpt_sample[12 := 93])))
          (NOT 0) XOR NOT 0 = 0x7bd9bff9"
    by (simp only: gpt_resized_window gpt_resized_window_crc)
  from gpt_check_header_in_range [OF l gpt_resized_facts(1) gpt_resized_facts(2) _ this]
  show ?thesis
    by (simp add: gpt_resized_facts)
qed

lemma gpt_padding_window:
  "take 92 (clear_crc_self (gpt_sample[100 := 1])) = take 92 (clear_crc_self gpt_sample)"
  by (simp add: clear_crc_self_update take_update_cancel)

lemma gpt_padding_facts:
  "take 8 (gpt_sample[100 := 1]) = GPT_SIGNATURE"
  "unat (le32 (gpt_sample[100 := 1]) 12) = 92"
  "le32 (gpt_sample[100 := 1]) 12 = 92"
  "le32 (gpt_sample[100 := 1]) 16 = 0x7bd9bff9"
  "le64 (clear_crc_self (gpt_sample[100 := 1])) 72 = 2"
  "le32 (clear_crc_self (gpt_sample[100 := 1])) 80 = 4"
  "le32 (clear_crc_self (gpt_sample[100 := 1])) 84 = 128"
  by code_simp+

lemma gpt_padding_accepted:
  "gpt_check_header (gpt_sample[100 := 1]) =
     Inr \<lparr> size = 92, crc_self = 0, lba_table = 2, num_entries = 4, entry_size = 128 \<rparr>"
proof -
  have l: "length (gpt_sample[100 := 1]) = 512"
    by (simp add: gpt_sample_length)
  have "fold (\<lambda>b c. crc32_step c b) (take 92 (clear_crc_self (gpt_sample[100 := 1])))
          (NOT 0) XOR NOT 0 = 0x7bd9bff9"
    by (simp only: gpt_padding_window gpt_sample_window gpt_sample_window_crc)
  from gpt_check_header_in_range [OF l gpt_padding_facts(1) gpt_padding_facts(2) _ this]
  show ?thesis
    by (simp add: gpt_padding_facts)
qed

lemma gpt_sample_bytes: "gpt_sample ! 12 = 92" "gpt_sample ! 100 = 0" "gpt_sample ! 0 = 0x45"
  by code_simp+

lemma gpt_unsigned_rejected: "gpt_check_header (gpt_sample[0 := 0]) = Inl BadSignature"
  by code_simp

text \<open>
  C3, as the code has it. A 512-byte block with the signature whose stored CRC is the
  CRC32 of the block, self-CRC field cleared, over \<open>size\<close> bytes: altering one byte that
  lies inside these \<open>size\<close> bytes and outside the signature (0 to 7), the size field (12
  to 15) and the self-CRC field (16 to 19) gives a block that is rejected with
  \<open>HeaderCrcMismatch\<close>, the stored value unchanged and the calculated one different
  from it.
\<close>

theorem gpt_crc_detects_altered_byte:
  assumes len: "length blk = 512"
    and sig: "take 8 blk = GPT_SIGNATURE"
    and crc: "crc32 (clear_crc_self blk) (unat (le32 blk 12)) = Some (le32 blk 16)"
    and lo: "8 \<le> i" and hi: "i < unat (le32 blk 12)"
    and field: "i < 12 \<or> 20 \<le> i"
    and b: "b \<noteq> blk ! i"
  shows "\<exists>c. c \<noteq> le32 blk 16 \<and>
           gpt_check_header (blk[i := b]) = Inl (HeaderCrcMismatch (le32 blk 16) c)"
proof -
  define n where "n = unat (le32 blk 12)"
  define w where "w = take n (clear_crc_self blk)"
  define c where "c = fold (\<lambda>b c. crc32_step c b) (w[i := b]) (NOT 0) XOR NOT 0"
  from field have f16: "i < 16 \<or> 20 \<le> i" by auto
  from crc have n: "n \<le> 512"
    using crc32_Some_in_range [of "clear_crc_self blk" n "le32 blk 16"]
    by (simp add: n_def length_clear_crc_self len)
  have stored: "fold (\<lambda>b c. crc32_step c b) w (NOT 0) XOR NOT 0 = le32 blk 16"
    using crc crc32_in_range [of n "clear_crc_self blk"] n
    by (simp add: n_def [symmetric] w_def length_clear_crc_self len)
  have iw: "i < length w"
    using hi n by (simp add: w_def n_def [symmetric] length_clear_crc_self len)
  have "w ! i = blk ! i"
    using hi by (simp add: w_def n_def [symmetric] clear_crc_self_nth [OF f16])
  with b have "b \<noteq> w ! i" by simp
  from fold_one_byte [OF iw this]
  have "fold (\<lambda>b c. crc32_step c b) (w[i := b]) (NOT 0)
        \<noteq> fold (\<lambda>b c. crc32_step c b) w (NOT 0)" .
  then have differs: "c \<noteq> le32 blk 16"
    unfolding c_def stored [symmetric] by (blast dest: xor_cancel_right)
  have len': "length (blk[i := b]) = 512" by (simp add: len)
  have sig': "take 8 (blk[i := b]) = GPT_SIGNATURE"
    using lo by (simp add: take_update_cancel sig)
  have size': "le32 (blk[i := b]) 12 = le32 blk 12"
    using lo field by (intro le32_update_other) auto
  have stored': "le32 (blk[i := b]) 16 = le32 blk 16"
    using field by (intro le32_update_other) auto
  have "take n (clear_crc_self (blk[i := b])) = w[i := b]"
    by (simp add: clear_crc_self_update [OF f16] w_def take_update_swap)
  then have "fold (\<lambda>b c. crc32_step c b) (take n (clear_crc_self (blk[i := b]))) (NOT 0)
               XOR NOT 0 = c"
    by (simp add: c_def)
  from gpt_check_header_in_range [OF len' sig' _ n this]
  have "gpt_check_header (blk[i := b]) = Inl (HeaderCrcMismatch (le32 blk 16) c)"
    using differs by (simp add: size' stored' n_def)
  with differs show ?thesis by blast
qed

theorem gpt_crc_detects_altered_byte_witness:
  "\<exists>c. c \<noteq> le32 gpt_sample 16 \<and>
     gpt_check_header (gpt_sample[20 := 1]) = Inl (HeaderCrcMismatch (le32 gpt_sample 16) c)"
proof -
  have "(1 :: u8) \<noteq> gpt_sample ! 20" by code_simp
  from gpt_crc_detects_altered_byte [OF gpt_sample_length gpt_sample_signature gpt_sample_crc
      _ _ _ this]
  show ?thesis by (simp add: gpt_sample_size)
qed

text \<open>
  C3 as stated fails on the sample block, which has the signature and the right stored
  CRC: with byte 12 (the size field) altered from 92 to 93 the block is accepted, with
  byte 100 (behind the 92 bytes the CRC covers) altered it is accepted, and with byte 0
  altered it is rejected for its signature, not for its CRC.
\<close>

theorem gpt_altered_byte_not_detected:
  "length gpt_sample = 512 \<and> take 8 gpt_sample = GPT_SIGNATURE
   \<and> crc32 (clear_crc_self gpt_sample) (unat (le32 gpt_sample 12)) = Some (le32 gpt_sample 16)
   \<and> gpt_sample ! 12 = 92
   \<and> gpt_check_header (gpt_sample[12 := 93]) =
       Inr \<lparr> size = 93, crc_self = 0, lba_table = 2, num_entries = 4, entry_size = 128 \<rparr>
   \<and> gpt_sample ! 100 = 0
   \<and> gpt_check_header (gpt_sample[100 := 1]) =
       Inr \<lparr> size = 92, crc_self = 0, lba_table = 2, num_entries = 4, entry_size = 128 \<rparr>
   \<and> gpt_sample ! 0 = 0x45
   \<and> gpt_check_header (gpt_sample[0 := 0]) = Inl BadSignature"
  using gpt_sample_length gpt_sample_signature gpt_sample_crc gpt_sample_bytes
    gpt_resized_accepted gpt_padding_accepted gpt_unsigned_rejected
  by simp

text \<open>
  C9. The length of the CRC window is the size field of the header, whatever it holds:
  there is a 512-byte block with the signature and a size field above 512 on which
  \<open>crc32\<close> runs out of the block.
\<close>

theorem gpt_crc_window_unbounded:
  "\<exists>blk. length blk = 512 \<and> take 8 blk = GPT_SIGNATURE \<and> 512 < unat (le32 blk 12)
         \<and> crc32 (clear_crc_self blk) (unat (le32 blk 12)) = None
         \<and> gpt_check_header blk = Inl CrcOutOfBounds"
proof (intro exI conjI)
  show "length gpt_oversized = 512" by (rule gpt_oversized_length)
  show "take 8 gpt_oversized = GPT_SIGNATURE" by (rule gpt_oversized_signature)
  show big: "512 < unat (le32 gpt_oversized 12)" by (simp add: gpt_oversized_size)
  then show "crc32 (clear_crc_self gpt_oversized) (unat (le32 gpt_oversized 12)) = None"
    by (intro crc32_oob) (simp add: length_clear_crc_self gpt_oversized_length)
  from big show "gpt_check_header gpt_oversized = Inl CrcOutOfBounds"
    by (intro gpt_check_header_oob gpt_oversized_length gpt_oversized_signature)
qed

section \<open>The partition-table stage\<close>

lemma take_MAX_SIZE_length: "4096 \<le> length dev \<Longrightarrow> length (take MAX_SIZE dev) = MAX_SIZE"
  by (simp add: MAX_SIZE_def)

lemma pt_loop_stop:
  "\<not> (i < MAX_NUM_PARTS \<and> i < unat (pt_num_parts buf)) \<Longrightarrow> pt_loop buf i out g = (out, g)"
  by (subst pt_loop.simps) auto

lemma pt_loop_break:
  "128 \<le> unat (part_id (partitions buf i)) \<Longrightarrow> pt_loop buf i out g = (out, g)"
  by (subst pt_loop.simps) (simp add: Let_def)

lemma pt_loop_step:
  assumes "i < MAX_NUM_PARTS" "i < unat (pt_num_parts buf)"
    and "unat (part_id (partitions buf i)) < 128"
  shows "fst (pt_loop buf i out g) =
         fst (pt_loop buf (Suc i) (out @ [(i, partitions buf i)])
                (if memcmp_eq (name (partitions buf i)) PT_GPT_NAME 3
                    \<and> memcmp_eq (name2 (partitions buf i)) PT_GPT_NAME 3
                 then Some (partitions buf i) else g))"
  using assms by (subst pt_loop.simps) (simp add: Let_def)

lemma pt_loop_printed:
  assumes "i \<le> k" "k \<le> MAX_NUM_PARTS" "k \<le> unat (pt_num_parts buf)"
    and "\<forall>j. i \<le> j \<and> j < k \<longrightarrow> unat (part_id (partitions buf j)) < 128"
    and "k = MAX_NUM_PARTS \<or> k = unat (pt_num_parts buf)
         \<or> 128 \<le> unat (part_id (partitions buf k))"
  shows "fst (pt_loop buf i out g) = out @ map (\<lambda>j. (j, partitions buf j)) [i..<k]"
  using assms
proof (induction "k - i" arbitrary: i out g)
  case 0
  then have ik: "i = k" by simp
  from "0.prems"(5) have "pt_loop buf k out g = (out, g)"
    by (auto intro: pt_loop_stop pt_loop_break)
  with ik show ?case by simp
next
  case (Suc d)
  then have lt: "i < k" by simp
  with Suc.prems have small: "unat (part_id (partitions buf i)) < 128" by simp
  from lt Suc.prems have b: "i < MAX_NUM_PARTS" "i < unat (pt_num_parts buf)" by simp_all
  have "fst (pt_loop buf (Suc i) (out @ [(i, partitions buf i)]) g') =
        (out @ [(i, partitions buf i)]) @ map (\<lambda>j. (j, partitions buf j)) [Suc i..<k]" for g'
    using Suc.hyps(2) lt Suc.prems by (intro Suc.hyps(1)) auto
  with lt show ?case
    by (simp add: pt_loop_step [OF b small] upt_conv_Cons)
qed

text \<open>What the stage does with a buffer that passes the checks before the loop.\<close>

lemma parse_valid:
  assumes "4096 \<le> length dev"
    and "pt_version (take MAX_SIZE dev) = PT_VERSION"
    and "part_id (partitions (take MAX_SIZE dev) 0) = BCT_ID"
    and "name (partitions (take MAX_SIZE dev) 0) = PT_BCT_NAME"
    and "name2 (partitions (take MAX_SIZE dev) 0) = PT_BCT_NAME"
    and "start_sector (partitions (take MAX_SIZE dev) 0) = 0"
  shows "parse_partition_table dev =
         \<lparr> pt_ret = None,
           printed = fst (pt_loop (take MAX_SIZE dev) 1
                            [(0, partitions (take MAX_SIZE dev) 0)] None),
           gpt = snd (pt_loop (take MAX_SIZE dev) 1
                        [(0, partitions (take MAX_SIZE dev) 0)] None) \<rparr>"
  using assms take_MAX_SIZE_length [OF assms(1)]
  by (simp add: parse_partition_table_def Let_def memcmp_eq_def split: prod.split
      del: length_take)

lemma parse_version_mismatch:
  assumes "4096 \<le> length dev" "pt_version (take MAX_SIZE dev) \<noteq> PT_VERSION"
  shows "parse_partition_table dev = \<lparr> pt_ret = Some VersionMismatch, printed = [], gpt = None \<rparr>"
  using assms take_MAX_SIZE_length [OF assms(1)]
  by (simp add: parse_partition_table_def Let_def del: length_take)

lemma name_length: "4096 \<le> length dev \<Longrightarrow> length (name (partitions (take MAX_SIZE dev) 0)) = 4"
  by (simp add: partitions_def MAX_SIZE_def)

lemma name2_length: "4096 \<le> length dev \<Longrightarrow> length (name2 (partitions (take MAX_SIZE dev) 0)) = 4"
  by (simp add: partitions_def MAX_SIZE_def)

lemma parse_invalid_bct:
  assumes "4096 \<le> length dev"
    and "pt_version (take MAX_SIZE dev) = PT_VERSION"
    and "\<not> (part_id (partitions (take MAX_SIZE dev) 0) = BCT_ID
            \<and> name (partitions (take MAX_SIZE dev) 0) = PT_BCT_NAME
            \<and> name2 (partitions (take MAX_SIZE dev) 0) = PT_BCT_NAME
            \<and> start_sector (partitions (take MAX_SIZE dev) 0) = 0)"
  shows "\<exists>f. parse_partition_table dev =
           \<lparr> pt_ret = Some (InvalidBootConfigRecord f),
             printed = [(0, partitions (take MAX_SIZE dev) 0)], gpt = None \<rparr>"
proof -
  have "take 4 (name (partitions (take MAX_SIZE dev) 0)) = name (partitions (take MAX_SIZE dev) 0)"
    "take 4 (name2 (partitions (take MAX_SIZE dev) 0)) = name2 (partitions (take MAX_SIZE dev) 0)"
    using assms(1) by (simp_all add: name_length name2_length)
  moreover have "take 4 PT_BCT_NAME = PT_BCT_NAME"
    by (simp add: PT_BCT_NAME_def)
  ultimately show ?thesis
    using assms take_MAX_SIZE_length [OF assms(1)]
    by (auto simp add: parse_partition_table_def Let_def memcmp_eq_def simp del: length_take)
qed

subsection \<open>The sample images\<close>

lemma pt_image_length: "length (pt_image v n recs) = 4096"
  by (simp add: pt_image_def del: take_append)

lemma pt_image_take: "take MAX_SIZE (pt_image v n recs) = pt_image v n recs"
  by (simp add: MAX_SIZE_def pt_image_length)

lemmas pt_bytes_defs =
  pt_image_def le32_def u32_bytes_def nth_append bct_record_def gpt_record_def app_record_def
  partinfo_bytes_def

lemma pt_sample_header:
  "pt_version pt_sample = 0x00000100" "pt_num_parts pt_sample = 3"
  by (simp_all add: pt_version_def pt_num_parts_def pt_sample_def pt_bytes_defs)

lemma pt_sample_records:
  "partitions pt_sample 0 =
     \<lparr> part_id = 2, name = [0x42, 0x43, 0x54, 0x00], allocation_policy = 0,
       name2 = [0x42, 0x43, 0x54, 0x00], fs_type = 0, virt_start_sector = 0, virt_size = 0,
       start_sector = 0, end_sector = 0, part_type = 0 \<rparr>"
  "partitions pt_sample 1 =
     \<lparr> part_id = 5, name = [0x47, 0x50, 0x54, 0x00], allocation_policy = 0,
       name2 = [0x47, 0x50, 0x54, 0x00], fs_type = 0, virt_start_sector = 0, virt_size = 0,
       start_sector = 0x1000, end_sector = 0, part_type = 0 \<rparr>"
  "partitions pt_sample 2 =
     \<lparr> part_id = 6, name = [0x41, 0x50, 0x50, 0x00], allocation_policy = 0,
       name2 = [0x41, 0x50, 0x50, 0x00], fs_type = 0, virt_start_sector = 0, virt_size = 0,
       start_sector = 0x2000, end_sector = 0, part_type = 0 \<rparr>"
  by (simp_all add: partitions_def pt_sample_def pt_bytes_defs)

lemma pt_documented_version_header: "pt_version pt_documented_version = 0x00010000"
  by (simp add: pt_version_def pt_documented_version_def pt_bytes_defs)

lemma pt_bct_fourth_byte_header: "pt_version pt_bct_fourth_byte = 0x00000100"
  by (simp add: pt_version_def pt_bct_fourth_byte_def pt_bytes_defs)

lemma pt_bct_fourth_byte_record:
  "partitions pt_bct_fourth_byte 0 =
     \<lparr> part_id = 2, name = [0x42, 0x43, 0x54, 0x58], allocation_policy = 0,
       name2 = [0x42, 0x43, 0x54, 0x00], fs_type = 0, virt_start_sector = 0, virt_size = 0,
       start_sector = 0, end_sector = 0, part_type = 0 \<rparr>"
  by (simp add: partitions_def pt_bct_fourth_byte_def pt_bytes_defs)

lemma pt_no_parts_header:
  "pt_version pt_no_parts = 0x00000100" "pt_num_parts pt_no_parts = 0"
  by (simp_all add: pt_version_def pt_num_parts_def pt_no_parts_def pt_bytes_defs)

lemma pt_no_parts_record:
  "partitions pt_no_parts 0 =
     \<lparr> part_id = 2, name = [0x42, 0x43, 0x54, 0x00], allocation_policy = 0,
       name2 = [0x42, 0x43, 0x54, 0x00], fs_type = 0, virt_start_sector = 0, virt_size = 0,
       start_sector = 0, end_sector = 0, part_type = 0 \<rparr>"
  by (simp add: partitions_def pt_no_parts_def pt_bytes_defs)

lemma pt_truncated_header:
  "pt_version pt_truncated = 0x00000100" "pt_num_parts pt_truncated = 4"
  by (simp_all add: pt_version_def pt_num_parts_def pt_truncated_def pt_bytes_defs)

lemma pt_truncated_records:
  "partitions pt_truncated 0 =
     \<lparr> part_id = 2, name = [0x42, 0x43, 0x54, 0x00], allocation_policy = 0,
       name2 = [0x42, 0x43, 0x54, 0x00], fs_type = 0, virt_start_sector = 0, virt_size = 0,
       start_sector = 0, end_sector = 0, part_type = 0 \<rparr>"
  "partitions pt_truncated 1 =
     \<lparr> part_id = 5, name = [0x47, 0x50, 0x54, 0x00], allocation_policy = 0,
       name2 = [0x47, 0x50, 0x54, 0x00], fs_type = 0, virt_start_sector = 0, virt_size = 0,
       start_sector = 0x1000, end_sector = 0, part_type = 0 \<rparr>"
  "part_id (partitions pt_truncated 2) = 200"
  by (simp_all add: partitions_def pt_truncated_def pt_bytes_defs)

lemma pt_samples_take:
  "take MAX_SIZE pt_sample = pt_sample"
  "take MAX_SIZE pt_documented_version = pt_documented_version"
  "take MAX_SIZE pt_bct_fourth_byte = pt_bct_fourth_byte"
  "take MAX_SIZE pt_no_parts = pt_no_parts"
  "take MAX_SIZE pt_truncated = pt_truncated"
  by (simp_all only: pt_sample_def pt_documented_version_def pt_bct_fourth_byte_def
      pt_no_parts_def pt_truncated_def pt_image_take)

lemma pt_samples_length:
  "length pt_sample = 4096"
  "length pt_documented_version = 4096"
  "length pt_bct_fourth_byte = 4096"
  "length pt_no_parts = 4096"
  "length pt_truncated = 4096"
  by (simp_all only: pt_sample_def pt_documented_version_def pt_bct_fourth_byte_def
      pt_no_parts_def pt_truncated_def pt_image_length)

lemma pt_sample_accepted: "pt_ret (parse_partition_table pt_sample) = None"
  by (subst parse_valid)
     (simp_all add: pt_samples_take pt_samples_length pt_sample_header pt_sample_records
        PT_VERSION_def BCT_ID_def PT_BCT_NAME_def)


subsection \<open>The version check\<close>

lemma pt_version_take: "4096 \<le> length dev \<Longrightarrow> pt_version (take MAX_SIZE dev) = le32 dev 8"
  by (simp add: pt_version_def le32_def MAX_SIZE_def)

text \<open>
  C1, as the code has it. For every buffer of at least 4096 bytes the stage goes past the
  version check exactly when the 32-bit little-endian value at bytes 8 to 11, the version
  field of the header, is \<open>0x00000100\<close>, the value of \<open>PT_VERSION\<close>; with any other
  value it ends with \<open>VersionMismatch\<close> and nothing is printed.
\<close>

theorem pt_version_check:
  assumes "4096 \<le> length dev"
  shows "((pt_ret (parse_partition_table dev) = Some VersionMismatch) = (le32 dev 8 \<noteq> 0x00000100))
         \<and> (le32 dev 8 \<noteq> 0x00000100 \<longrightarrow>
              parse_partition_table dev =
                \<lparr> pt_ret = Some VersionMismatch, printed = [], gpt = None \<rparr>)"
proof (cases "pt_version (take MAX_SIZE dev) = PT_VERSION")
  case False
  with assms have "parse_partition_table dev =
      \<lparr> pt_ret = Some VersionMismatch, printed = [], gpt = None \<rparr>"
    by (simp add: parse_version_mismatch)
  with False assms show ?thesis
    by (simp add: pt_version_take PT_VERSION_def)
next
  case True
  then have "pt_ret (parse_partition_table dev) \<noteq> Some VersionMismatch"
    using assms take_MAX_SIZE_length [OF assms]
    by (simp add: parse_partition_table_def Let_def split: prod.split del: length_take)
  with True assms show ?thesis
    by (simp add: pt_version_take PT_VERSION_def)
qed

theorem pt_version_check_witness:
  "le32 pt_sample 8 = 0x00000100
   \<and> pt_ret (parse_partition_table pt_sample) \<noteq> Some VersionMismatch"
proof -
  have "4096 \<le> length pt_sample"
    by (simp add: pt_samples_length)
  from pt_version_check [OF this] pt_sample_header(1)
  show ?thesis
    by (simp add: pt_version_def)
qed

text \<open>
  C1 as stated fails on the image whose version field holds \<open>0x00010000\<close>, the value of
  the constant \<open>VERSION\<close> and of the comment on the field: the stage ends with
  \<open>VersionMismatch\<close> before anything is printed. The image that differs from it only in
  a version field of \<open>0x00000100\<close> passes the check.
\<close>

theorem pt_documented_version_rejected:
  "length pt_documented_version = 4096
   \<and> pt_version pt_documented_version = 0x00010000
   \<and> pt_version pt_documented_version = VERSION
   \<and> parse_partition_table pt_documented_version =
       \<lparr> pt_ret = Some VersionMismatch, printed = [], gpt = None \<rparr>
   \<and> length pt_sample = 4096
   \<and> pt_version pt_sample = 0x00000100
   \<and> pt_ret (parse_partition_table pt_sample) = None"
proof -
  have "parse_partition_table pt_documented_version =
        \<lparr> pt_ret = Some VersionMismatch, printed = [], gpt = None \<rparr>"
    by (rule parse_version_mismatch)
       (simp_all add: pt_samples_length pt_samples_take pt_documented_version_header
          PT_VERSION_def)
  then show ?thesis
    by (simp add: pt_samples_length pt_documented_version_header VERSION_def
        pt_sample_header pt_sample_accepted)
qed

subsection \<open>Record 0\<close>

text \<open>
  C4, as the code has it. On a buffer of at least 4096 bytes that passes the version
  check, the stage goes on to the loop exactly when record 0 has id 2, all four bytes of
  each of its two name fields are "BCT" and a null byte, and its start sector is 0.
  Otherwise it ends with \<open>InvalidBootConfigRecord\<close>, record 0 being the only record
  printed and no GPT record noted.
\<close>

theorem bct_record_validation:
  assumes "4096 \<le> length dev"
    and "buf = take MAX_SIZE dev"
    and "pt_version buf = PT_VERSION"
  shows "((pt_ret (parse_partition_table dev) = None)
          = (part_id (partitions buf 0) = 2
             \<and> name (partitions buf 0) = [0x42, 0x43, 0x54, 0x00]
             \<and> name2 (partitions buf 0) = [0x42, 0x43, 0x54, 0x00]
             \<and> start_sector (partitions buf 0) = 0))
         \<and> (pt_ret (parse_partition_table dev) \<noteq> None \<longrightarrow>
              (\<exists>f. parse_partition_table dev =
                 \<lparr> pt_ret = Some (InvalidBootConfigRecord f),
                   printed = [(0, partitions buf 0)], gpt = None \<rparr>))"
proof (cases "part_id (partitions buf 0) = BCT_ID
              \<and> name (partitions buf 0) = PT_BCT_NAME
              \<and> name2 (partitions buf 0) = PT_BCT_NAME
              \<and> start_sector (partitions buf 0) = 0")
  case True
  with assms have "pt_ret (parse_partition_table dev) = None"
    by (simp add: parse_valid)
  with True show ?thesis
    by (simp add: BCT_ID_def PT_BCT_NAME_def)
next
  case False
  with assms parse_invalid_bct [of dev]
  obtain f where "parse_partition_table dev =
      \<lparr> pt_ret = Some (InvalidBootConfigRecord f),
        printed = [(0, partitions buf 0)], gpt = None \<rparr>"
    by auto
  with False show ?thesis
    by (auto simp add: BCT_ID_def PT_BCT_NAME_def)
qed

theorem bct_record_validation_witness:
  "pt_ret (parse_partition_table pt_sample) = None
   \<and> pt_ret (parse_partition_table pt_bct_fourth_byte) \<noteq> None"
proof -
  have "4096 \<le> length pt_sample" "4096 \<le> length pt_bct_fourth_byte"
    by (simp_all add: pt_samples_length)
  from bct_record_validation [OF this(1) pt_samples_take(1) [symmetric]]
    bct_record_validation [OF this(2) pt_samples_take(3) [symmetric]]
  show ?thesis
    by (simp add: pt_sample_header pt_sample_records pt_bct_fourth_byte_header
        pt_bct_fourth_byte_record PT_VERSION_def)
qed

text \<open>
  C4 as stated fails on an image that passes the version check and whose record 0 has id
  2, start sector 0, the name "BCT" and a null byte in its second name field, and "BCT"
  and the byte \<open>0x58\<close> in its first: the first three bytes of both names are "BCT", and
  the stage ends with \<open>InvalidBootConfigRecord\<close>, after record 0 was printed.
\<close>

theorem bct_fourth_byte_compared:
  "length pt_bct_fourth_byte = 4096
   \<and> pt_version pt_bct_fourth_byte = PT_VERSION
   \<and> part_id (partitions pt_bct_fourth_byte 0) = 2
   \<and> take 3 (name (partitions pt_bct_fourth_byte 0)) = [0x42, 0x43, 0x54]
   \<and> take 3 (name2 (partitions pt_bct_fourth_byte 0)) = [0x42, 0x43, 0x54]
   \<and> start_sector (partitions pt_bct_fourth_byte 0) = 0
   \<and> parse_partition_table pt_bct_fourth_byte =
       \<lparr> pt_ret = Some (InvalidBootConfigRecord BadBctName),
         printed = [(0, partitions pt_bct_fourth_byte 0)], gpt = None \<rparr>"
proof -
  have "parse_partition_table pt_bct_fourth_byte =
       \<lparr> pt_ret = Some (InvalidBootConfigRecord BadBctName),
         printed = [(0, partitions pt_bct_fourth_byte 0)], gpt = None \<rparr>"
    by (simp add: parse_partition_table_def Let_def pt_samples_take pt_samples_length
        pt_bct_fourth_byte_header pt_bct_fourth_byte_record PT_VERSION_def BCT_ID_def
        PT_BCT_NAME_def memcmp_eq_def MAX_SIZE_def)
  then show ?thesis
    by (simp add: pt_samples_length pt_bct_fourth_byte_header pt_bct_fourth_byte_record
        PT_VERSION_def)
qed

subsection \<open>Records 1 and up\<close>

text \<open>
  C5, as the code has it. On a buffer of at least 4096 bytes that passes the version check
  and the checks of record 0, let \<open>k\<close> be the least of the declared number of
  partitions, 24, and the first index of a record with an id of 128 or more. The stage
  does not fail, and it prints record 0 followed by exactly the records 1 to \<open>k - 1\<close>,
  in order. When the declared number is at least 1, at most 24, and no record below it
  has an id of 128 or more, the number of records printed is the declared number.
\<close>

theorem pt_records_printed:
  assumes "4096 \<le> length dev"
    and "buf = take MAX_SIZE dev"
    and "pt_version buf = PT_VERSION"
    and "part_id (partitions buf 0) = BCT_ID"
    and "name (partitions buf 0) = PT_BCT_NAME"
    and "name2 (partitions buf 0) = PT_BCT_NAME"
    and "start_sector (partitions buf 0) = 0"
    and "k \<le> 24" and "k \<le> unat (pt_num_parts buf)"
    and "\<forall>j<k. unat (part_id (partitions buf j)) < 128"
    and "k = 24 \<or> k = unat (pt_num_parts buf) \<or> 128 \<le> unat (part_id (partitions buf k))"
  shows "pt_ret (parse_partition_table dev) = None
         \<and> printed (parse_partition_table dev) =
             (0, partitions buf 0) # map (\<lambda>j. (j, partitions buf j)) [1..<k]
         \<and> (1 \<le> unat (pt_num_parts buf) \<and> k = unat (pt_num_parts buf) \<longrightarrow>
              length (printed (parse_partition_table dev)) = unat (pt_num_parts buf))"
proof -
  have parse: "parse_partition_table dev =
      \<lparr> pt_ret = None, printed = fst (pt_loop buf 1 [(0, partitions buf 0)] None),
        gpt = snd (pt_loop buf 1 [(0, partitions buf 0)] None) \<rparr>"
    using assms(1-7) by (simp add: parse_valid)
  have loop: "fst (pt_loop buf 1 [(0, partitions buf 0)] None) =
        (0, partitions buf 0) # map (\<lambda>j. (j, partitions buf j)) [1..<k]"
  proof (cases "k = 0")
    case True
    from assms(4) have "unat (part_id (partitions buf 0)) = 2"
      by (simp add: BCT_ID_def)
    with True assms(11) have "unat (pt_num_parts buf) = 0"
      by auto
    then have "pt_loop buf 1 [(0, partitions buf 0)] None = ([(0, partitions buf 0)], None)"
      by (intro pt_loop_stop) simp
    with True show ?thesis by simp
  next
    case False
    then have "1 \<le> k" by simp
    from pt_loop_printed [OF this, of buf "[(0, partitions buf 0)]" None] assms(8-11)
    show ?thesis
      by (simp add: MAX_NUM_PARTS_def)
  qed
  from parse loop show ?thesis by auto
qed

theorem pt_records_printed_witness:
  "pt_ret (parse_partition_table pt_truncated) = None
   \<and> map fst (printed (parse_partition_table pt_truncated)) = [0, 1]
   \<and> unat (pt_num_parts pt_truncated) = 4
   \<and> pt_ret (parse_partition_table pt_sample) = None
   \<and> map fst (printed (parse_partition_table pt_sample)) = [0, 1, 2]
   \<and> length (printed (parse_partition_table pt_sample)) = unat (pt_num_parts pt_sample)"
proof -
  have t: "\<forall>j<2. unat (part_id (partitions pt_truncated j)) < 128"
  proof (intro allI impI)
    fix j :: nat
    assume "j < 2"
    then have "j = 0 \<or> j = 1" by auto
    then show "unat (part_id (partitions pt_truncated j)) < 128"
      using pt_truncated_records by auto
  qed
  have s: "\<forall>j<3. unat (part_id (partitions pt_sample j)) < 128"
  proof (intro allI impI)
    fix j :: nat
    assume "j < 3"
    then have "j = 0 \<or> j = 1 \<or> j = 2" by auto
    then show "unat (part_id (partitions pt_sample j)) < 128"
      using pt_sample_records by auto
  qed
  have "4096 \<le> length pt_truncated" "4096 \<le> length pt_sample"
    by (simp_all add: pt_samples_length)
  from pt_records_printed [OF this(1) pt_samples_take(5) [symmetric], of 2]
    pt_records_printed [OF this(2) pt_samples_take(1) [symmetric], of 3] t s
  show ?thesis
    by (simp add: pt_truncated_header pt_truncated_records pt_sample_header pt_sample_records
        PT_VERSION_def BCT_ID_def PT_BCT_NAME_def upt_conv_Cons)
qed

text \<open>
  C5 as stated fails on the image that declares 0 partitions: it passes the version check
  and the checks of record 0, no record is iterated, and the stage prints one record,
  record 0.
\<close>

theorem pt_no_parts_prints_bct:
  "length pt_no_parts = 4096
   \<and> unat (pt_num_parts pt_no_parts) = 0
   \<and> pt_ret (parse_partition_table pt_no_parts) = None
   \<and> printed (parse_partition_table pt_no_parts) = [(0, partitions pt_no_parts 0)]
   \<and> length (printed (parse_partition_table pt_no_parts)) = 1"
proof -
  have "pt_loop pt_no_parts 1 [(0, partitions pt_no_parts 0)] None =
        ([(0, partitions pt_no_parts 0)], None)"
    by (rule pt_loop_stop) (simp add: pt_no_parts_header)
  moreover have "parse_partition_table pt_no_parts =
      \<lparr> pt_ret = None,
        printed = fst (pt_loop (take MAX_SIZE pt_no_parts) 1
                         [(0, partitions (take MAX_SIZE pt_no_parts) 0)] None),
        gpt = snd (pt_loop (take MAX_SIZE pt_no_parts) 1
                     [(0, partitions (take MAX_SIZE pt_no_parts) 0)] None) \<rparr>"
    by (rule parse_valid)
       (simp_all add: pt_samples_take pt_samples_length pt_no_parts_header pt_no_parts_record
          PT_VERSION_def BCT_ID_def PT_BCT_NAME_def)
  ultimately show ?thesis
    by (simp add: pt_samples_take pt_samples_length pt_no_parts_header)
qed

section \<open>The configuration block\<close>

lemma read_len_short: "0 \<le> r \<Longrightarrow> r < 512 \<Longrightarrow> read_len r < 512"
proof -
  assume r: "0 \<le> r" "r < 512"
  then have "uint (word_of_int r :: u32) = r"
    by (simp add: uint_word_of_int take_bit_eq_mod)
  with r show ?thesis
    by (simp add: read_len_def word_less_def)
qed

lemma read_len_failed: "read_len (- 1) = 0xFFFFFFFF"
  by (simp add: read_len_def)

text \<open>A read that delivers fewer than 512 bytes ends the run with \<open>IoError\<close>.\<close>

lemma read_config_block_short:
  assumes "0 \<le> read_ret c" "read_ret c < 512"
  shows "read_config_block c = IoError"
  using read_len_short [OF assms]
  by (simp add: read_config_block_def TRDX_CFG_BLOCK_MAX_SIZE_def)

text \<open>A read that fails, after \<open>open\<close> and \<open>lseek64\<close> succeeded, does not.\<close>

lemma read_config_block_failed:
  assumes "0 \<le> open_fd c" "seek_pos c \<noteq> - 1" "read_ret c = - 1"
  shows "read_config_block c \<noteq> IoError"
  using assms
  by (simp add: read_config_block_def TRDX_CFG_BLOCK_MAX_SIZE_def read_len_failed
      split: option.split prod.split)

text \<open>
  The check of the first tag: after a full read, the run ends with \<open>NoConfigBlock\<close>
  exactly when the flags differ from the valid pattern and the id differs from the
  sentinel as well.
\<close>

lemma read_config_block_sentinel:
  assumes "length blk = 512"
  shows "(read_config_block (cfg_run 512 blk) = NoConfigBlock)
         = (tag_flags blk 0 \<noteq> Some TAG_FLAG_VALID \<and> tag_id blk 0 \<noteq> Some TAG_VALID)"
proof -
  from assms obtain fl tid where t: "tag_flags blk 0 = Some fl" "tag_id blk 0 = Some tid"
    by (simp add: tag_flags_def tag_id_def rd16_def rd8_def)
  have "\<not> read_len 512 < 512"
    by (simp add: read_len_def)
  with t show ?thesis
    by (simp add: read_config_block_def cfg_run_def TRDX_CFG_BLOCK_MAX_SIZE_def
        split: option.split)
qed

text \<open>
  C2. The block \<open>cfg_wrong_id\<close> has 512 bytes and a first tag with the valid flag and
  the id \<open>0x1234\<close>, not the sentinel \<open>0xcf01\<close>. The run does not end with
  \<open>NoConfigBlock\<close>: it walks the tags from offset 4 and reports a block with the
  initial values.
\<close>

theorem first_tag_wrong_id_accepted:
  "length cfg_wrong_id = 512
   \<and> tag_flags cfg_wrong_id 0 = Some TAG_FLAG_VALID
   \<and> tag_id cfg_wrong_id 0 = Some 0x1234
   \<and> read_config_block (cfg_run 512 cfg_wrong_id) = ConfigBlock (Some ''invalid'') cfg_init"
  by code_simp

text \<open>
  C8. With a \<open>read\<close> that fails (return value -1) the run goes on to the tags of
  whatever \<open>config_block\<close> holds: zero bytes give \<open>NoConfigBlock\<close>, the bytes of a
  configuration block give its values. A \<open>read\<close> of 100 bytes gives \<open>IoError\<close>.
\<close>

theorem failed_read_not_detected:
  "read_len (- 1) = 0xFFFFFFFF
   \<and> read_config_block (cfg_run (- 1) cfg_zero) = NoConfigBlock
   \<and> read_config_block (cfg_run (- 1) cfg_sample) =
       ConfigBlock (Some ''Apalis T30 2GB'')
         \<lparr> hw = \<lparr> ver_major = 1, ver_minor = 1, ver_assembly = 0, prodid = 25 \<rparr>,
           eth_addr = \<lparr> oui = 0x2d1400, nic = 0x563412 \<rparr>, serial = 0x123456 \<rparr>
   \<and> read_config_block (cfg_run 100 cfg_sample) = IoError"
  by code_simp

text \<open>
  C10. There is a block of 512 bytes, with a valid first tag, whose tag at offset 4 has
  the valid flag and a length of 127 words: the cursor goes to 4 + 4 + 127 * 4 = 516,
  the flags of a tag are read there, outside the block, and the walk is out of bounds.
\<close>

theorem tag_walk_leaves_block:
  "\<exists>blk. length blk = 512
     \<and> tag_flags blk 4 = Some TAG_FLAG_VALID
     \<and> tag_len blk 4 = Some 127
     \<and> tag_flags blk (4 + 4 + 127 * 4) = None
     \<and> tag_walk blk 4 cfg_init = None
     \<and> read_config_block (cfg_run 512 blk) = CfgOutOfBounds"
proof (intro exI [of _ cfg_overrun] conjI)
  show "length cfg_overrun = 512" by code_simp
  show "tag_flags cfg_overrun 4 = Some TAG_FLAG_VALID" by code_simp
  show "tag_len cfg_overrun 4 = Some 127" by code_simp
  show "tag_flags cfg_overrun (4 + 4 + 127 * 4) = None" by code_simp
  show "tag_walk cfg_overrun 4 cfg_init = None" by code_simp
  show "read_config_block (cfg_run 512 cfg_overrun) = CfgOutOfBounds" by code_simp
qed

section \<open>GPT entry names\<close>








subsection \<open>The sample names in the "C" locale\<close>








subsection \<open>The string of an entry name\<close>




end
